theory Spec2Isabelle
  imports
    Main
    "HOL-Library.AList"
    "HOL-Library.Sublist"
    "HOL-Library.Char_ord"
    "HOL-Library.List_Lexorder"
begin

section \<open>The merge engine of signac (\<^verbatim>\<open>signac/contrib/sync.py\<close>)\<close>

text \<open>
  The module merges one project into another: the workspace directories of the jobs
  (\<^verbatim>\<open>_merge_dirs\<close>), their documents (\<^verbatim>\<open>_merge_dicts\<close>, and \<^verbatim>\<open>_merge_json_dicts\<close> for a
  document backed by a file), one job (\<^verbatim>\<open>merge_jobs\<close>) and a whole project
  (\<^verbatim>\<open>merge_projects\<close>). Every function is embedded under its own name; a leading
  underscore is dropped, since an Isabelle name cannot start with one.

  Mutation is explicit state passing: every function returns the state it was given,
  updated, then the actions its proxy calls logged, in order, then its outcome. An
  exception is an outcome \<open>Inl e\<close>; the state returned beside it is the state at the
  moment the exception leaves the function.
\<close>

subsection \<open>Values, exceptions, strategies\<close>

text \<open>
  A document value is a scalar or a nested document. Numbers are integers here (floats
  are left out). A \<^verbatim>\<open>dict\<close> is an association list in insertion order; \<open>map_of\<close> reads
  it and \<open>AList.update\<close> is \<^verbatim>\<open>d[key] = value\<close>: the value is replaced in place, a new key
  is appended.
\<close>

datatype pyval =
    PNone
  | PBool bool
  | PInt int
  | PStr string
  | PDict "(string \<times> pyval) list"

text \<open>
  \<^verbatim>\<open>a == b\<close>. A \<^verbatim>\<open>bool\<close> is an \<^verbatim>\<open>int\<close> in Python (\<^verbatim>\<open>True == 1\<close>); two dicts are equal
  when they have as many keys and every key of the first has an equal value in the
  second, whatever the order.
\<close>

fun py_eq :: "pyval \<Rightarrow> pyval \<Rightarrow> bool" where
  "py_eq PNone PNone = True"
| "py_eq (PBool a) (PBool b) = (a = b)"
| "py_eq (PBool a) (PInt j) = ((if a then 1 else 0) = j)"
| "py_eq (PInt i) (PBool b) = (i = (if b then 1 else 0))"
| "py_eq (PInt i) (PInt j) = (i = j)"
| "py_eq (PStr s) (PStr t) = (s = t)"
| "py_eq (PDict xs) (PDict ys) =
     (length xs = length ys \<and>
      list_all (\<lambda>(k, v). case map_of ys k of None \<Rightarrow> False | Some w \<Rightarrow> py_eq v w) xs)"
| "py_eq _ _ = False"

text \<open>
  The exceptions. \<^verbatim>\<open>KeyboardInterrupt\<close>, \<^verbatim>\<open>SystemExit\<close> and \<^verbatim>\<open>GeneratorExit\<close> are subclasses of
  \<^verbatim>\<open>BaseException\<close> only, so \<^verbatim>\<open>except Exception\<close> does not catch them; all the others are
  subclasses of \<^verbatim>\<open>Exception\<close> (\<open>is_exception e\<close> is \<^verbatim>\<open>isinstance(e, Exception)\<close>).
  \<^verbatim>\<open>RegexError\<close> is \<^verbatim>\<open>re.error\<close>.
\<close>

datatype error =
    KeyError
  | TypeError
  | AttributeError
  | ValueError
  | RuntimeError
  | AssertionError
  | OSError
  | RegexError
  | MergeConflict string
  | MergeSchemaConflict "string set" "string set"
  | DestinationExistsError
  | OtherError string
  | KeyboardInterrupt
  | SystemExit
  | GeneratorExit

fun is_exception :: "error \<Rightarrow> bool" where
  "is_exception KeyboardInterrupt = False"
| "is_exception SystemExit = False"
| "is_exception GeneratorExit = False"
| "is_exception _ = True"

text \<open>
  A strategy is a Python callable. The file merge calls it with two paths,
  \<^verbatim>\<open>strategy(fn_src, fn_dst)\<close>, the document merge with one key, \<^verbatim>\<open>strategy(key)\<close>;
  calling a function with the wrong number of arguments raises \<^verbatim>\<open>TypeError\<close>. A strategy
  may raise.
\<close>

datatype callable =
    Fun1 "string \<Rightarrow> error + bool"
  | Fun2 "string \<Rightarrow> string \<Rightarrow> error + bool"

fun call1 :: "callable \<Rightarrow> string \<Rightarrow> error + bool" where
  "call1 (Fun1 f) a = f a"
| "call1 (Fun2 f) a = Inl TypeError"

fun call2 :: "callable \<Rightarrow> string \<Rightarrow> string \<Rightarrow> error + bool" where
  "call2 (Fun2 f) a b = f a b"
| "call2 (Fun1 f) a b = Inl TypeError"

text \<open>\<^verbatim>\<open>def theirs(fn_src, fn_dst): return True\<close> and \<^verbatim>\<open>def ours(fn_src, fn_dst): return False\<close>.\<close>

definition theirs :: callable where
  "theirs = Fun2 (\<lambda>fn_src fn_dst. Inr True)"

definition ours :: callable where
  "ours = Fun2 (\<lambda>fn_src fn_dst. Inr False)"

subsection \<open>The modification proxy\<close>

text \<open>
  Every method of \<^verbatim>\<open>_DataModifyProxy\<close> logs its action and then, unless \<^verbatim>\<open>dry_run\<close>, calls
  the library function that does it (\<open>effect\<close>, on whatever state it works on).
\<close>

datatype action =
    SetValue string pyval
  | CopyFile string string
  | CopyTree string string
  | Remove string
  | CreateBackup string
  | RemoveBackup string

record proxy =
  dry_run :: bool

definition perform ::
  "proxy \<Rightarrow> action \<Rightarrow> ('s \<Rightarrow> error + 's) \<Rightarrow> 's \<Rightarrow> 's \<times> action list \<times> (error + unit)" where
  "perform proxy a effect s =
     (if dry_run proxy then (s, [a], Inr ())
      else (case effect s of
              Inl e \<Rightarrow> (s, [a], Inl e)
            | Inr s' \<Rightarrow> (s', [a], Inr ())))"

text \<open>What was logged before a call goes in front of what the call logs.\<close>

definition logged :: "action list \<Rightarrow> 's \<times> action list \<times> 'r \<Rightarrow> 's \<times> action list \<times> 'r" where
  "logged a x = (case x of (s, b, r) \<Rightarrow> (s, a @ b, r))"

text \<open>
  \<^verbatim>\<open>key in doc\<close>, \<^verbatim>\<open>doc[key]\<close> and \<^verbatim>\<open>doc[key] = value\<close> for a string key, on whatever
  \<^verbatim>\<open>doc\<close> is at run time: a dict; a string (\<^verbatim>\<open>in\<close> is the substring test, indexing by
  a string and item assignment raise \<^verbatim>\<open>TypeError\<close>); \<^verbatim>\<open>None\<close>, a bool or an int (all
  three operations raise \<^verbatim>\<open>TypeError\<close>).
\<close>

fun substring :: "string \<Rightarrow> string \<Rightarrow> bool" where
  "substring k [] = (k = [])"
| "substring k (c # s) = (prefix k (c # s) \<or> substring k s)"

fun contains :: "pyval \<Rightarrow> string \<Rightarrow> error + bool" where
  "contains (PDict d) key = Inr (map_of d key \<noteq> None)"
| "contains (PStr s) key = Inr (substring key s)"
| "contains _ key = Inl TypeError"

fun getitem :: "pyval \<Rightarrow> string \<Rightarrow> error + pyval" where
  "getitem (PDict d) key = (case map_of d key of None \<Rightarrow> Inl KeyError | Some v \<Rightarrow> Inr v)"
| "getitem _ key = Inl TypeError"

fun setitem :: "pyval \<Rightarrow> string \<Rightarrow> pyval \<Rightarrow> error + pyval" where
  "setitem (PDict d) key v = Inr (PDict (AList.update key v d))"
| "setitem _ key v = Inl TypeError"

fun is_mapping :: "pyval \<Rightarrow> bool" where
  "is_mapping (PDict d) = True"
| "is_mapping _ = False"

definition set_value ::
  "proxy \<Rightarrow> pyval \<Rightarrow> string \<Rightarrow> pyval \<Rightarrow> pyval \<times> action list \<times> (error + unit)" where
  "set_value proxy doc key v = perform proxy (SetValue key v) (\<lambda>d. setitem d key v) doc"

definition copy ::
  "proxy \<Rightarrow> string \<Rightarrow> string \<Rightarrow> ('s \<Rightarrow> error + 's) \<Rightarrow> 's \<Rightarrow> 's \<times> action list \<times> (error + unit)" where
  "copy proxy src dst shutil_copy_effect s = perform proxy (CopyFile src dst) shutil_copy_effect s"

definition copytree ::
  "proxy \<Rightarrow> string \<Rightarrow> string \<Rightarrow> ('s \<Rightarrow> error + 's) \<Rightarrow> 's \<Rightarrow> 's \<times> action list \<times> (error + unit)" where
  "copytree proxy src dst shutil_copytree_effect s =
     perform proxy (CopyTree src dst) shutil_copytree_effect s"

definition remove ::
  "proxy \<Rightarrow> string \<Rightarrow> ('s \<Rightarrow> error + 's) \<Rightarrow> 's \<Rightarrow> 's \<times> action list \<times> (error + unit)" where
  "remove proxy path os_remove_effect s = perform proxy (Remove path) os_remove_effect s"

subsection \<open>Merging documents\<close>

text \<open>
  \<^verbatim>\<open>_merge_dicts(src, dst, strategy, proxy)\<close>; \<open>merge_items\<close> is its \<^verbatim>\<open>for\<close> loop over
  \<^verbatim>\<open>src.items()\<close>, with the destination and the skipped keys so far; \<open>assign\<close> is the
  last line of the loop body, \<^verbatim>\<open>proxy.set_value(dst, key, value)\<close>, which every path
  that does not \<^verbatim>\<open>continue\<close> falls through to. The nested call mutates the object
  \<^verbatim>\<open>dst[key]\<close> in place: \<open>mutated\<close> puts the nested result back under its key, also
  when the nested call raises.
\<close>

fun mutated :: "pyval \<Rightarrow> string \<Rightarrow> pyval \<Rightarrow> pyval" where
  "mutated (PDict d) key v = PDict (AList.update key v d)"
| "mutated doc key v = doc"

fun merge_dicts ::
    "pyval \<Rightarrow> pyval \<Rightarrow> callable option \<Rightarrow> proxy \<Rightarrow> pyval \<times> action list \<times> (error + string set)"
  and merge_items ::
    "(string \<times> pyval) list \<Rightarrow> pyval \<Rightarrow> callable option \<Rightarrow> proxy \<Rightarrow> string set
      \<Rightarrow> pyval \<times> action list \<times> (error + string set)"
where
  "merge_dicts src dst strategy proxy =
     (if py_eq src dst then (dst, [], Inr {})
      else (case src of
              PDict items \<Rightarrow> merge_items items dst strategy proxy {}
            | _ \<Rightarrow> (dst, [], Inl AttributeError)))"
| "merge_items [] dst strategy proxy skipped_keys = (dst, [], Inr skipped_keys)"
| "merge_items ((key, v) # rest) dst strategy proxy skipped_keys =
     (let assign = (\<lambda>d.
            case set_value proxy d key v of
              (d', a, Inl e) \<Rightarrow> (d', a, Inl e)
            | (d', a, Inr _) \<Rightarrow> logged a (merge_items rest d' strategy proxy skipped_keys))
      in
      case contains dst key of
        Inl e \<Rightarrow> (dst, [], Inl e)
      | Inr False \<Rightarrow> assign dst
      | Inr True \<Rightarrow>
          (case getitem dst key of
             Inl e \<Rightarrow> (dst, [], Inl e)
           | Inr dv \<Rightarrow>
               if py_eq dv v then merge_items rest dst strategy proxy skipped_keys
               else
                 (case strategy of
                    None \<Rightarrow> merge_items rest dst strategy proxy (insert key skipped_keys)
                  | Some f \<Rightarrow>
                      (case call1 f key of
                         Inl e \<Rightarrow> (dst, [], Inl e)
                       | Inr False \<Rightarrow>
                           merge_items rest dst strategy proxy (insert key skipped_keys)
                       | Inr True \<Rightarrow>
                           if is_mapping v then
                             (case merge_dicts v dv strategy proxy of
                                (dv', a, Inr sk) \<Rightarrow>
                                  logged a (merge_items rest (mutated dst key dv') strategy proxy
                                    (skipped_keys \<union> sk))
                              | (dv', a, Inl e) \<Rightarrow>
                                  if e = KeyError then logged a (assign (mutated dst key dv'))
                                  else (mutated dst key dv', a, Inl e))
                           else assign dst))))"

subsection \<open>Documents backed by a file\<close>

text \<open>
  The regular files that back documents, by path. \<^verbatim>\<open>shutil.copy\<close> and \<^verbatim>\<open>os.remove\<close> raise
  \<^verbatim>\<open>OSError\<close> when the file they read or remove is missing.
\<close>

type_synonym files = "string \<rightharpoonup> string"

definition isfile :: "files \<Rightarrow> string \<Rightarrow> bool" where
  "isfile fs path = (fs path \<noteq> None)"

definition shutil_copy :: "string \<Rightarrow> string \<Rightarrow> files \<Rightarrow> error + files" where
  "shutil_copy src dst fs = (case fs src of None \<Rightarrow> Inl OSError | Some c \<Rightarrow> Inr (fs(dst \<mapsto> c)))"

definition os_remove :: "string \<Rightarrow> files \<Rightarrow> error + files" where
  "os_remove path fs = (case fs path of None \<Rightarrow> Inl OSError | Some c \<Rightarrow> Inr (fs(path := None)))"

text \<open>
  \<^verbatim>\<open>with proxy.create_backup(path) as fn_backup: body\<close>. The check for a stale backup is
  before the \<^verbatim>\<open>try\<close>; whatever happens after it, the \<^verbatim>\<open>finally\<close> block removes the
  backup, and a failure of that removal is only logged. The body's outcome \<open>r\<close> (its
  value or its exception) passes through unchanged.
\<close>

definition create_backup ::
  "proxy \<Rightarrow> string \<Rightarrow> (string \<Rightarrow> files \<Rightarrow> files \<times> action list \<times> 'r) \<Rightarrow> files
     \<Rightarrow> files \<times> action list \<times> (error + 'r)" where
  "create_backup proxy path body fs =
     (let path_backup = path @ ''~'';
          finally = (\<lambda>fs1.
             if dry_run proxy then fs1
             else (case os_remove path_backup fs1 of Inl e \<Rightarrow> fs1 | Inr fs2 \<Rightarrow> fs2))
      in
      if isfile fs path_backup then (fs, [CreateBackup path], Inl RuntimeError)
      else
        (case (if dry_run proxy then Inr fs else shutil_copy path path_backup fs) of
           Inl e \<Rightarrow> (finally fs, [CreateBackup path, RemoveBackup path], Inl e)
         | Inr fs0 \<Rightarrow>
             (case body path_backup fs0 of
                (fs1, a, r) \<Rightarrow>
                  (finally fs1, [CreateBackup path] @ a @ [RemoveBackup path], Inr r))))"

text \<open>
  Modelled from the spec: the document class (\<^verbatim>\<open>JSONDict\<close>, in the storage layer) is not
  part of this module. A document is its data and the path of its backing file
  (\<^verbatim>\<open>_filename\<close>, or \<^verbatim>\<open>None\<close>); it is a view of that file: an assignment is written through
  (\<open>persist\<close>: the file then holds \<open>dump\<close> of the new data, whatever serialisation
  \<open>dump\<close> is), and when the file is put back from a backup the document shows the old
  data again.
\<close>

record json_dict =
  data :: pyval
  filename :: "string option"

definition persist :: "(pyval \<Rightarrow> string) \<Rightarrow> json_dict \<Rightarrow> pyval \<Rightarrow> files \<Rightarrow> files" where
  "persist dump dst d' fs =
     (case filename dst of
        None \<Rightarrow> fs
      | Some fn \<Rightarrow> if d' = data dst then fs else fs(fn \<mapsto> dump d'))"

text \<open>
  \<^verbatim>\<open>_merge_json_dicts(src, dst, strategy, proxy)\<close>. The state is the destination document
  and the files. The handler is \<^verbatim>\<open>except Exception\<close>: it puts the backup back and raises
  again; an exception that is no \<^verbatim>\<open>Exception\<close> passes it by, and the \<^verbatim>\<open>finally\<close> block of
  \<open>create_backup\<close> still removes the backup.
\<close>

definition merge_json_dicts ::
  "(pyval \<Rightarrow> string) \<Rightarrow> pyval \<Rightarrow> json_dict \<Rightarrow> callable option \<Rightarrow> proxy \<Rightarrow> files
     \<Rightarrow> (json_dict \<times> files) \<times> action list \<times> (error + string set)" where
  "merge_json_dicts dump src dst strategy proxy fs =
     (if filename dst = None \<or> \<not> isfile fs (the (filename dst)) then
        (case merge_dicts src (data dst) strategy proxy of
           (d', a, r) \<Rightarrow> ((dst\<lparr>data := d'\<rparr>, persist dump dst d' fs), a, r))
      else
        (case create_backup proxy (the (filename dst))
                (\<lambda>fn_backup fs0.
                   case merge_dicts src (data dst) strategy proxy of
                     (d', a, Inr skipped) \<Rightarrow>
                       (persist dump dst d' fs0, a, (dst\<lparr>data := d'\<rparr>, Inr skipped))
                   | (d', a, Inl e) \<Rightarrow>
                       if \<not> is_exception e
                       then (persist dump dst d' fs0, a, (dst\<lparr>data := d'\<rparr>, Inl e))
                       else
                         (case copy proxy fn_backup (the (filename dst))
                                 (shutil_copy fn_backup (the (filename dst)))
                                 (persist dump dst d' fs0) of
                            (fs1, b, Inl e') \<Rightarrow> (fs1, a @ b, (dst\<lparr>data := d'\<rparr>, Inl e'))
                          | (fs1, b, Inr _) \<Rightarrow>
                              (fs1, a @ b,
                               ((if dry_run proxy then dst\<lparr>data := d'\<rparr> else dst), Inl e))))
                fs of
           (fs', a, Inl e) \<Rightarrow> ((dst, fs'), a, Inl e)
         | (fs', a, Inr (dst', r)) \<Rightarrow> ((dst', fs'), a, r)))"

subsection \<open>Merging directories\<close>

text \<open>
  A directory is the list of its entries, by name; an entry is a regular file, with its
  content and its modification time, or a directory. \<open>map_of\<close> finds the entry of a name.
  The directory merge reads the source tree and changes the destination tree; the two are
  separate trees (the two directories do not contain one another). \<open>join\<close> is
  \<^verbatim>\<open>os.path.join\<close> on POSIX.
\<close>

datatype node = File string nat | Dir "(string \<times> node) list"

type_synonym dir = "(string \<times> node) list"

definition join :: "string \<Rightarrow> string \<Rightarrow> string" where
  "join a b =
     (if b \<noteq> [] \<and> hd b = CHR ''/'' then b
      else if a = [] \<or> last a = CHR ''/'' then a @ b
      else a @ ''/'' @ b)"

definition listdir :: "dir \<Rightarrow> string list" where
  "listdir d = remdups (map fst d)"

fun isreg :: "node option \<Rightarrow> bool" where
  "isreg (Some (File c t)) = True"
| "isreg _ = False"

fun isdir :: "node option \<Rightarrow> bool" where
  "isdir (Some (Dir t)) = True"
| "isdir _ = False"

text \<open>
  \<^verbatim>\<open>filecmp.cmp(f1, f2)\<close>, shallow, as \<^verbatim>\<open>dircmp\<close> calls it: false unless both are regular
  files; two files of the same size and modification time are taken for equal without
  being read; two files of different sizes are different; otherwise the contents are
  compared. (The cache of earlier comparisons is left out.)
\<close>

fun cmp :: "node option \<Rightarrow> node option \<Rightarrow> bool" where
  "cmp (Some (File a s)) (Some (File b t)) =
     (if length a = length b \<and> s = t then True
      else if length a \<noteq> length b then False
      else a = b)"
| "cmp _ _ = False"

text \<open>
  \<^verbatim>\<open>filecmp.dircmp(left, right)\<close>, the three attributes the merge reads. Both listings are
  filtered by \<^verbatim>\<open>hide + ignore\<close> (the defaults) and sorted; \<^verbatim>\<open>diff_files\<close> are the common
  regular files that \<open>cmp\<close> finds different, \<^verbatim>\<open>subdirs\<close> the names that are directories
  on both sides. A name that is a file on one side and a directory on the other is in
  none of the three.
\<close>

definition DEFAULT_IGNORES :: "string list" where
  "DEFAULT_IGNORES =
     [''RCS'', ''CVS'', ''tags'', ''.git'', ''.hg'', ''.bzr'', ''_darcs'', ''__pycache__'']"

record dircmp =
  left_only :: "string list"
  diff_files :: "string list"
  subdirs :: "string list"

definition dircmp :: "dir \<Rightarrow> dir \<Rightarrow> dircmp" where
  "dircmp left right =
     (let skip = [''.'', ''..''] @ DEFAULT_IGNORES;
          left_list = sort (filter (\<lambda>n. n \<notin> set skip) (listdir left));
          right_list = sort (filter (\<lambda>n. n \<notin> set skip) (listdir right));
          common = filter (\<lambda>n. n \<in> set right_list) left_list;
          common_dirs = filter (\<lambda>n. isdir (map_of left n) \<and> isdir (map_of right n)) common;
          common_files = filter (\<lambda>n. isreg (map_of left n) \<and> isreg (map_of right n)) common
      in \<lparr> left_only = filter (\<lambda>n. n \<notin> set right_list) left_list,
           diff_files = filter (\<lambda>n. \<not> cmp (map_of left n) (map_of right n)) common_files,
           subdirs = common_dirs \<rparr>)"

text \<open>
  \<^verbatim>\<open>exclude and any([re.match(p, fn) for p in exclude])\<close>. The regular expression
  matcher is a parameter: \<open>re_match p fn\<close> is whether \<^verbatim>\<open>re.match(p, fn)\<close> finds a match, or
  the exception it raises (\<^verbatim>\<open>re.error\<close> for a pattern that does not compile). The list
  comprehension \<open>matches\<close> evaluates every pattern before \<^verbatim>\<open>any\<close> looks at the results.
  \<open>literal_match\<close> is that matcher on patterns of ordinary characters, where a match at
  the start of the name is a prefix.
\<close>

fun matches ::
  "(string \<Rightarrow> string \<Rightarrow> error + bool) \<Rightarrow> string list \<Rightarrow> string \<Rightarrow> error + bool list" where
  "matches re_match [] fn = Inr []"
| "matches re_match (p # ps) fn =
     (case re_match p fn of
        Inl e \<Rightarrow> Inl e
      | Inr b \<Rightarrow>
          (case matches re_match ps fn of
             Inl e \<Rightarrow> Inl e
           | Inr bs \<Rightarrow> Inr (b # bs)))"

definition excluded ::
  "(string \<Rightarrow> string \<Rightarrow> error + bool) \<Rightarrow> string list \<Rightarrow> string \<Rightarrow> error + bool" where
  "excluded re_match exclude fn =
     (if exclude = [] then Inr False
      else (case matches re_match exclude fn of
              Inl e \<Rightarrow> Inl e
            | Inr bs \<Rightarrow> Inr (True \<in> set bs)))"

definition literal_match :: "string \<Rightarrow> string \<Rightarrow> error + bool" where
  "literal_match p fn = Inr (prefix p fn)"

text \<open>
  \<^verbatim>\<open>shutil.copy(join(src, fn), join(dst, fn))\<close> and \<^verbatim>\<open>shutil.copytree\<close> of the same two
  paths, on the destination directory: \<open>entry\<close> is what the source has under \<open>fn\<close>.
  \<^verbatim>\<open>copy\<close> wants a regular file, and writes into the target when that is a directory; the
  file it writes has the content of the source and the time of the copy, \<open>now\<close> (one
  reading of the clock stands for the whole merge). \<^verbatim>\<open>copytree\<close> wants a directory and a
  target that does not exist; it copies with \<^verbatim>\<open>copy2\<close>, which keeps the times.
\<close>

fun shutil_copy_entry :: "nat \<Rightarrow> node option \<Rightarrow> string \<Rightarrow> dir \<Rightarrow> error + dir" where
  "shutil_copy_entry now (Some (File c t)) fn d =
     (case map_of d fn of
        Some (Dir sub) \<Rightarrow> Inr (AList.update fn (Dir (AList.update fn (File c now) sub)) d)
      | _ \<Rightarrow> Inr (AList.update fn (File c now) d))"
| "shutil_copy_entry now _ fn d = Inl OSError"

fun shutil_copytree_entry :: "node option \<Rightarrow> string \<Rightarrow> dir \<Rightarrow> error + dir" where
  "shutil_copytree_entry (Some (Dir t)) fn d =
     (if map_of d fn \<noteq> None then Inl OSError else Inr (AList.update fn (Dir t) d))"
| "shutil_copytree_entry _ fn d = Inl OSError"

text \<open>The three loops of \<^verbatim>\<open>_merge_dirs\<close>, then the function itself.\<close>

fun merge_left_only ::
  "(string \<Rightarrow> string \<Rightarrow> error + bool) \<Rightarrow> nat \<Rightarrow> string \<Rightarrow> string \<Rightarrow> dir \<Rightarrow> string list \<Rightarrow> proxy
     \<Rightarrow> string list \<Rightarrow> dir \<Rightarrow> dir \<times> action list \<times> (error + unit)" where
  "merge_left_only re_match now src dst left exclude proxy [] d = (d, [], Inr ())"
| "merge_left_only re_match now src dst left exclude proxy (fn # fns) d =
     (case excluded re_match exclude fn of
        Inl e \<Rightarrow> (d, [], Inl e)
      | Inr True \<Rightarrow> merge_left_only re_match now src dst left exclude proxy fns d
      | Inr False \<Rightarrow>
          (case (if isreg (map_of left fn)
                 then copy proxy (join src fn) (join dst fn)
                        (shutil_copy_entry now (map_of left fn) fn) d
                 else copytree proxy (join src fn) (join dst fn)
                        (shutil_copytree_entry (map_of left fn) fn) d) of
             (d', a, Inl e) \<Rightarrow> (d', a, Inl e)
           | (d', a, Inr _) \<Rightarrow>
               logged a (merge_left_only re_match now src dst left exclude proxy fns d')))"

fun merge_diff_files ::
  "(string \<Rightarrow> string \<Rightarrow> error + bool) \<Rightarrow> nat \<Rightarrow> string \<Rightarrow> string \<Rightarrow> dir \<Rightarrow> string list
     \<Rightarrow> callable option \<Rightarrow> proxy \<Rightarrow> string list \<Rightarrow> dir \<Rightarrow> dir \<times> action list \<times> (error + unit)" where
  "merge_diff_files re_match now src dst left exclude strategy proxy [] d = (d, [], Inr ())"
| "merge_diff_files re_match now src dst left exclude strategy proxy (fn # fns) d =
     (case excluded re_match exclude fn of
        Inl e \<Rightarrow> (d, [], Inl e)
      | Inr True \<Rightarrow> merge_diff_files re_match now src dst left exclude strategy proxy fns d
      | Inr False \<Rightarrow>
          (case strategy of
             None \<Rightarrow> (d, [], Inl (MergeConflict fn))
           | Some f \<Rightarrow>
               (case call2 f (join src fn) (join dst fn) of
                  Inl e \<Rightarrow> (d, [], Inl e)
                | Inr False \<Rightarrow>
                    merge_diff_files re_match now src dst left exclude strategy proxy fns d
                | Inr True \<Rightarrow>
                    (case copy proxy (join src fn) (join dst fn)
                            (shutil_copy_entry now (map_of left fn) fn) d of
                       (d', a, Inl e) \<Rightarrow> (d', a, Inl e)
                     | (d', a, Inr _) \<Rightarrow>
                         logged a
                           (merge_diff_files re_match now src dst left exclude strategy proxy
                              fns d')))))"

function merge_dirs ::
    "(string \<Rightarrow> string \<Rightarrow> error + bool) \<Rightarrow> nat \<Rightarrow> string \<Rightarrow> string \<Rightarrow> dir \<Rightarrow> dir \<Rightarrow> string list
      \<Rightarrow> callable option \<Rightarrow> proxy \<Rightarrow> dir \<times> action list \<times> (error + unit)"
  and merge_subdirs ::
    "(string \<Rightarrow> string \<Rightarrow> error + bool) \<Rightarrow> nat \<Rightarrow> string \<Rightarrow> string \<Rightarrow> dir \<Rightarrow> string list
      \<Rightarrow> callable option \<Rightarrow> proxy \<Rightarrow> string list \<Rightarrow> dir \<Rightarrow> dir \<times> action list \<times> (error + unit)"
where
  "merge_dirs re_match now src dst left right exclude strategy proxy =
     (let diff = dircmp left right in
      case merge_left_only re_match now src dst left exclude proxy (left_only diff) right of
        (d1, a1, Inl e) \<Rightarrow> (d1, a1, Inl e)
      | (d1, a1, Inr _) \<Rightarrow>
          logged a1
            (case merge_diff_files re_match now src dst left exclude strategy proxy
                    (diff_files diff) d1 of
               (d2, a2, Inl e) \<Rightarrow> (d2, a2, Inl e)
             | (d2, a2, Inr _) \<Rightarrow>
                 logged a2
                   (merge_subdirs re_match now src dst left exclude strategy proxy
                      (subdirs diff) d2)))"
| "merge_subdirs re_match now src dst left exclude strategy proxy [] d = (d, [], Inr ())"
| "merge_subdirs re_match now src dst left exclude strategy proxy (subdir # rest) d =
     (case (map_of left subdir, map_of d subdir) of
        (Some (Dir l), Some (Dir r)) \<Rightarrow>
          (case merge_dirs re_match now (join src subdir) (join dst subdir) l r
                  exclude strategy proxy of
             (r', a, Inl e) \<Rightarrow> (AList.update subdir (Dir r') d, a, Inl e)
           | (r', a, Inr _) \<Rightarrow>
               logged a
                 (merge_subdirs re_match now src dst left exclude strategy proxy rest
                    (AList.update subdir (Dir r') d)))
      | _ \<Rightarrow> (d, [], Inl OSError))"
  by pat_completeness auto
termination
proof -
  have inside: "map_of xs k = Some (Dir l) \<Longrightarrow>
      size_list (size_prod (\<lambda>_. 0) size) l < size_list (size_prod (\<lambda>_. 0) size) xs"
    for xs :: dir and k l
    by (induction xs) (auto split: if_splits)
  show ?thesis
    by (relation "measures
         [\<lambda>x. case x of
               Inl (_, _, _, _, left, _) \<Rightarrow> size_list (size_prod (\<lambda>_. 0) size) left
             | Inr (_, _, _, _, left, _) \<Rightarrow> size_list (size_prod (\<lambda>_. 0) size) left,
          \<lambda>x. case x of Inl _ \<Rightarrow> Suc 0 | Inr _ \<Rightarrow> 0,
          \<lambda>x. case x of
               Inl _ \<Rightarrow> 0
             | Inr (_, _, _, _, _, _, _, _, names, _) \<Rightarrow> length names]")
       (auto dest: inside[OF sym])
qed


subsection \<open>Merging jobs and projects\<close>

text \<open>
  Modelled from the spec: the job and project classes are the storage layer's, not this
  module's. A job has its class, its id, the two reserved file names, the path and the
  tree of its workspace, and its document. A project has its root directory, the
  directory its workspaces are in, its document and its jobs, in iteration order.
\<close>

record job =
  job_type :: string
  job_id :: string
  FN_MANIFEST :: string
  FN_DOCUMENT :: string
  workspace :: string
  tree :: dir
  doc :: json_dict

record project =
  root_directory :: string
  workspace_dir :: string
  document :: json_dict
  jobs :: "job list"

text \<open>
  The \<^verbatim>\<open>exclude\<close> argument is \<^verbatim>\<open>None\<close>, a list (an object the caller may hold on to) or
  something else (one pattern); the \<^verbatim>\<open>dry_run\<close> argument of \<^verbatim>\<open>merge_jobs\<close> is a proxy or a
  flag.
\<close>

datatype exclude_arg = ExcludeNone | ExcludeList "string list" | ExcludePattern string

datatype dry_run_arg = DryRunFlag bool | DryRunProxy proxy

text \<open>
  \<^verbatim>\<open>merge_jobs(src_job, dst_job, exclude, strategy, doc_strategy, dry_run)\<close>. The state is
  the caller's \<^verbatim>\<open>exclude\<close> object, the destination job and the files. \<^verbatim>\<open>exclude.extend\<close>
  changes the list in place: when the caller passed a list, it is that list.
\<close>

definition merge_jobs ::
  "(string \<Rightarrow> string \<Rightarrow> error + bool) \<Rightarrow> nat \<Rightarrow> (pyval \<Rightarrow> string) \<Rightarrow> job \<Rightarrow> job \<Rightarrow> exclude_arg
     \<Rightarrow> callable option \<Rightarrow> callable option \<Rightarrow> dry_run_arg \<Rightarrow> files
     \<Rightarrow> (exclude_arg \<times> job \<times> files) \<times> action list \<times> (error + string set)" where
  "merge_jobs re_match now dump src_job dst_job exclude strategy doc_strategy dry_run_or_proxy fs =
     (let exclude_list =
            (case exclude of
               ExcludeNone \<Rightarrow> []
             | ExcludeList xs \<Rightarrow> xs
             | ExcludePattern p \<Rightarrow> [p]);
          proxy = (case dry_run_or_proxy of DryRunProxy p \<Rightarrow> p | DryRunFlag b \<Rightarrow> \<lparr>dry_run = b\<rparr>)
      in
      if job_type src_job \<noteq> job_type dst_job \<or> job_id src_job \<noteq> job_id dst_job
         \<or> FN_MANIFEST src_job \<noteq> FN_MANIFEST dst_job
         \<or> FN_DOCUMENT src_job \<noteq> FN_DOCUMENT dst_job
      then ((exclude, dst_job, fs), [], Inl AssertionError)
      else
        (let extended = exclude_list @ [FN_MANIFEST src_job, FN_DOCUMENT src_job];
             exclude' = (case exclude of ExcludeList xs \<Rightarrow> ExcludeList extended | _ \<Rightarrow> exclude)
         in
         case merge_dirs re_match now (workspace src_job) (workspace dst_job)
                (tree src_job) (tree dst_job) extended strategy proxy of
           (t', a, Inl e) \<Rightarrow> ((exclude', dst_job\<lparr>tree := t'\<rparr>, fs), a, Inl e)
         | (t', a, Inr _) \<Rightarrow>
             (case merge_json_dicts dump (data (doc src_job)) (doc dst_job)
                     doc_strategy proxy fs of
                ((doc', fs'), b, r) \<Rightarrow>
                  ((exclude', dst_job\<lparr>tree := t', doc := doc'\<rparr>, fs'), a @ b, r))))"

text \<open>
  Modelled from the spec: \<^verbatim>\<open>destination.clone(job)\<close> and \<^verbatim>\<open>destination.open_job(id)\<close> are
  the project's. \<open>clone\<close> raises \<^verbatim>\<open>DestinationExistsError\<close> when the destination has a
  job of that id and otherwise adds a copy of the job, workspace and document file, under
  the destination's workspace directory. \<open>put_job\<close> stores a merged job back in its
  place.
\<close>

definition clone :: "project \<Rightarrow> job \<Rightarrow> files \<Rightarrow> error + project \<times> files" where
  "clone destination j fs =
     (if job_id j \<in> set (map job_id (jobs destination)) then Inl DestinationExistsError
      else
        (let ws = join (workspace_dir destination) (job_id j);
             fn = join ws (FN_DOCUMENT j);
             content = (case filename (doc j) of None \<Rightarrow> None | Some f \<Rightarrow> fs f);
             j' = j\<lparr>workspace := ws, doc := (doc j)\<lparr>filename := Some fn\<rparr>\<rparr>
         in Inr (destination\<lparr>jobs := jobs destination @ [j']\<rparr>,
                 (case content of None \<Rightarrow> fs | Some c \<Rightarrow> fs(fn \<mapsto> c)))))"

definition open_job :: "project \<Rightarrow> string \<Rightarrow> error + job" where
  "open_job p i = (case find (\<lambda>j. job_id j = i) (jobs p) of None \<Rightarrow> Inl KeyError | Some j \<Rightarrow> Inr j)"

definition put_job :: "project \<Rightarrow> job \<Rightarrow> project" where
  "put_job p j' = p\<lparr>jobs := map (\<lambda>j. if job_id j = job_id j' then j' else j) (jobs p)\<rparr>"

text \<open>
  The loop of \<^verbatim>\<open>merge_projects\<close> over the jobs of the source (\<open>selection\<close> is already the
  set of id strings, or \<^verbatim>\<open>None\<close>), then \<^verbatim>\<open>merge_projects\<close> itself. The state is the caller's
  \<^verbatim>\<open>exclude\<close> object, the destination project and the files. The counters \<^verbatim>\<open>cloned\<close> and
  \<^verbatim>\<open>merged\<close> are only logged and are left out.

  Modelled from the spec: the schema class is the project's. \<open>detect_schema\<close>, the
  project's schema detection, is a parameter; a schema is the set of its entries, it is
  true when it is not empty, and \<^verbatim>\<open>difference\<close> is the difference of sets.
\<close>

fun merge_project_jobs ::
  "(string \<Rightarrow> string \<Rightarrow> error + bool) \<Rightarrow> nat \<Rightarrow> (pyval \<Rightarrow> string) \<Rightarrow> callable option
     \<Rightarrow> callable option \<Rightarrow> string list option \<Rightarrow> proxy \<Rightarrow> job list \<Rightarrow> exclude_arg \<Rightarrow> project
     \<Rightarrow> files \<Rightarrow> string set
     \<Rightarrow> (exclude_arg \<times> project \<times> files) \<times> action list \<times> (error + string set)" where
  "merge_project_jobs re_match now dump strategy doc_strategy selection proxy [] exclude
      destination fs skipped_keys = ((exclude, destination, fs), [], Inr skipped_keys)"
| "merge_project_jobs re_match now dump strategy doc_strategy selection proxy (src_job # rest)
      exclude destination fs skipped_keys =
     (if selection \<noteq> None \<and> job_id src_job \<notin> set (the selection)
      then merge_project_jobs re_match now dump strategy doc_strategy selection proxy rest exclude
             destination fs skipped_keys
      else
        (case clone destination src_job fs of
           Inr (destination', fs') \<Rightarrow>
             merge_project_jobs re_match now dump strategy doc_strategy selection proxy rest
               exclude destination' fs' skipped_keys
         | Inl e \<Rightarrow>
             if e \<noteq> DestinationExistsError then ((exclude, destination, fs), [], Inl e)
             else
               (case open_job destination (job_id src_job) of
                  Inl e' \<Rightarrow> ((exclude, destination, fs), [], Inl e')
                | Inr dst_job \<Rightarrow>
                    (case merge_jobs re_match now dump src_job dst_job exclude strategy
                            doc_strategy (DryRunProxy proxy) fs of
                       ((exclude', dst_job', fs'), a, Inl e') \<Rightarrow>
                         ((exclude', put_job destination dst_job', fs'), a, Inl e')
                     | ((exclude', dst_job', fs'), a, Inr skipped) \<Rightarrow>
                         logged a
                           (merge_project_jobs re_match now dump strategy doc_strategy selection
                              proxy rest exclude' (put_job destination dst_job') fs'
                              (skipped_keys \<union> skipped))))))"

definition merge_projects ::
  "(string \<Rightarrow> string \<Rightarrow> error + bool) \<Rightarrow> nat \<Rightarrow> (pyval \<Rightarrow> string) \<Rightarrow> (project \<Rightarrow> string set)
     \<Rightarrow> project \<Rightarrow> project \<Rightarrow> exclude_arg \<Rightarrow> callable option \<Rightarrow> callable option
     \<Rightarrow> string list option \<Rightarrow> bool \<Rightarrow> bool \<Rightarrow> files
     \<Rightarrow> (exclude_arg \<times> project \<times> files) \<times> action list \<times> (error + string set)" where
  "merge_projects re_match now dump detect_schema source destination exclude strategy doc_strategy
      selection check_schema dry_run_flag fs =
     (if source = destination then ((exclude, destination, fs), [], Inl ValueError)
      else
        (let proxy = \<lparr>dry_run = dry_run_flag\<rparr>;
             schema_src = detect_schema source;
             schema_dst = detect_schema destination
         in
         if check_schema \<and> schema_dst \<noteq> {} \<and> schema_src \<noteq> schema_dst
            \<and> (schema_src - schema_dst \<noteq> {} \<or> schema_dst - schema_src \<noteq> {})
         then ((exclude, destination, fs), [], Inl (MergeSchemaConflict schema_src schema_dst))
         else
           (case merge_json_dicts dump (data (document source)) (document destination)
                   doc_strategy proxy fs of
              ((doc', fs'), a, Inl e) \<Rightarrow>
                ((exclude, destination\<lparr>document := doc'\<rparr>, fs'), a, Inl e)
            | ((doc', fs'), a, Inr skipped_keys) \<Rightarrow>
                logged a
                  (merge_project_jobs re_match now dump strategy doc_strategy selection proxy
                     (jobs source) exclude (destination\<lparr>document := doc'\<rparr>) fs' skipped_keys))))"

text \<open>The first and the last component of what a function of the model returns.\<close>

abbreviation state :: "'s \<times> action list \<times> 'r \<Rightarrow> 's" where
  "state x \<equiv> fst x"

abbreviation outcome :: "'s \<times> action list \<times> 'r \<Rightarrow> 'r" where
  "outcome x \<equiv> snd (snd x)"


section \<open>Properties of the document merge\<close>

subsection \<open>Equal documents\<close>

text \<open>
  Claim C9. When the source and the destination documents are equal (\<^verbatim>\<open>src == dst\<close>),
  the document merge returns the empty set of skipped keys at once, whatever the strategy
  and the proxy: the destination is returned as it was and no proxy call is logged.
\<close>

theorem merge_dicts_equal_short_circuit:
  "py_eq src dst \<Longrightarrow> merge_dicts src dst strategy proxy = (dst, [], Inr {})"
  by simp

theorem merge_dicts_equal_short_circuit_witness:
  "py_eq (PDict [(''a'', PInt 1), (''b'', PBool True)]) (PDict [(''b'', PInt 1), (''a'', PInt 1)])
   \<and> merge_dicts (PDict [(''a'', PInt 1), (''b'', PBool True)])
         (PDict [(''b'', PInt 1), (''a'', PInt 1)]) None \<lparr>dry_run = False\<rparr>
       = (PDict [(''b'', PInt 1), (''a'', PInt 1)], [], Inr {})"
proof -
  have h: "py_eq (PDict [(''a'', PInt 1), (''b'', PBool True)])
             (PDict [(''b'', PInt 1), (''a'', PInt 1)])"
    by simp
  show ?thesis
    using h merge_dicts_equal_short_circuit[OF h, of None "\<lparr>dry_run = False\<rparr>"]
    by (simp del: merge_dicts.simps py_eq.simps)
qed

subsection \<open>Strategies of the document merge\<close>

text \<open>
  Claim C8, as the specification states it, fails: \<^verbatim>\<open>theirs\<close> and \<^verbatim>\<open>ours\<close> are functions of
  two paths, and the document merge calls its strategy with one key. On the source
  \<^verbatim>\<open>{a: 1, b: 2}\<close> and the destination \<^verbatim>\<open>{a: 99}\<close> the call \<^verbatim>\<open>strategy('a')\<close> raises
  \<^verbatim>\<open>TypeError\<close> with either of them, before anything is set.
\<close>

theorem theirs_ours_raise_on_documents:
  "merge_dicts (PDict [(''a'', PInt 1), (''b'', PInt 2)]) (PDict [(''a'', PInt 99)]) (Some theirs)
      \<lparr>dry_run = False\<rparr>
    = (PDict [(''a'', PInt 99)], [], Inl TypeError)
   \<and> merge_dicts (PDict [(''a'', PInt 1), (''b'', PInt 2)]) (PDict [(''a'', PInt 99)]) (Some ours)
      \<lparr>dry_run = False\<rparr>
    = (PDict [(''a'', PInt 99)], [], Inl TypeError)"
  by (simp add: theirs_def ours_def)

text \<open>
  Claim C8, amended. For the source \<^verbatim>\<open>{a: 1, b: 2}\<close> and the destination \<^verbatim>\<open>{a: 99}\<close>, the
  document merge with a strategy that answers true for the key \<^verbatim>\<open>a\<close> yields the destination
  \<^verbatim>\<open>{a: 1, b: 2}\<close> and no skipped key, and with a strategy that answers false for \<^verbatim>\<open>a\<close> it
  yields the destination \<^verbatim>\<open>{a: 99, b: 2}\<close> and the skipped keys \<^verbatim>\<open>{a}\<close>.
\<close>

theorem key_strategy_symmetry:
  "call1 f ''a'' = Inr answer \<Longrightarrow>
   merge_dicts (PDict [(''a'', PInt 1), (''b'', PInt 2)]) (PDict [(''a'', PInt 99)]) (Some f)
      \<lparr>dry_run = False\<rparr>
    = (if answer
       then (PDict [(''a'', PInt 1), (''b'', PInt 2)],
             [SetValue ''a'' (PInt 1), SetValue ''b'' (PInt 2)], Inr {})
       else (PDict [(''a'', PInt 99), (''b'', PInt 2)], [SetValue ''b'' (PInt 2)], Inr {''a''}))"
  by (simp add: set_value_def perform_def logged_def)

theorem key_strategy_symmetry_witness:
  "merge_dicts (PDict [(''a'', PInt 1), (''b'', PInt 2)]) (PDict [(''a'', PInt 99)])
      (Some (Fun1 (\<lambda>key. Inr True))) \<lparr>dry_run = False\<rparr>
    = (PDict [(''a'', PInt 1), (''b'', PInt 2)],
       [SetValue ''a'' (PInt 1), SetValue ''b'' (PInt 2)], Inr {})
   \<and> merge_dicts (PDict [(''a'', PInt 1), (''b'', PInt 2)]) (PDict [(''a'', PInt 99)])
      (Some (Fun1 (\<lambda>key. Inr False))) \<lparr>dry_run = False\<rparr>
    = (PDict [(''a'', PInt 99), (''b'', PInt 2)], [SetValue ''b'' (PInt 2)], Inr {''a''})"
proof -
  have t: "call1 (Fun1 (\<lambda>key. Inr True)) ''a'' = Inr True"
    and f: "call1 (Fun1 (\<lambda>key. Inr False)) ''a'' = Inr False"
    by simp_all
  show ?thesis
    using key_strategy_symmetry[OF t] key_strategy_symmetry[OF f]
    by (simp del: merge_dicts.simps)
qed

subsection \<open>A nested source value over a destination value that is no document\<close>

text \<open>
  Claim C4 does not hold of the code. The source \<^verbatim>\<open>{a: {x: 1}}\<close> is merged into the
  destination \<^verbatim>\<open>{a: 5}\<close> with a strategy that answers true: the nested call
  \<^verbatim>\<open>_merge_dicts({x: 1}, 5, ...)\<close> evaluates \<^verbatim>\<open>'x' in 5\<close>, which raises \<^verbatim>\<open>TypeError\<close>; the
  handler catches \<^verbatim>\<open>KeyError\<close> only, so the error leaves the merge, \<^verbatim>\<open>set_value\<close> is never
  called and the destination keeps \<^verbatim>\<open>a: 5\<close>.
\<close>

theorem nested_source_over_scalar_raises:
  "merge_dicts (PDict [(''a'', PDict [(''x'', PInt 1)])]) (PDict [(''a'', PInt 5)])
      (Some (Fun1 (\<lambda>key. Inr True))) \<lparr>dry_run = False\<rparr>
    = (PDict [(''a'', PInt 5)], [], Inl TypeError)"
  by (simp add: set_value_def perform_def logged_def)

subsection \<open>Frame lemmas of the document merge\<close>





lemma set_value_dry: "dry_run proxy \<Longrightarrow> set_value proxy d key v = (d, [SetValue key v], Inr ())"
  by (simp add: set_value_def perform_def)

lemma mutated_same: "getitem dst key = Inr dv \<Longrightarrow> mutated dst key dv = dst"
  by (cases dst) (auto simp: update_triv split: option.splits)

lemma fst_logged: "fst (logged a x) = fst x"
  by (cases x) (simp add: logged_def)

lemma dry_run_items:
  assumes dry: "dry_run proxy"
    and nested: "\<And>k v dv s. (k, v) \<in> set items \<Longrightarrow> fst (merge_dicts v dv s proxy) = dv"
  shows "fst (merge_items items dst strategy proxy skipped) = dst"
  using nested
proof (induction items arbitrary: dst skipped strategy)
  case Nil
  then show ?case by simp
next
  case (Cons kv items)
  obtain key v where kv: "kv = (key, v)" by (cases kv)
  have IH: "fst (merge_items items d s proxy sk) = d" for d sk s
  proof (rule Cons.IH)
    fix k w dv s'
    assume "(k, w) \<in> set items"
    then have "(k, w) \<in> set (kv # items)" by simp
    then show "fst (merge_dicts w dv s' proxy) = dv" by (rule Cons.prems)
  qed
  have nest: "fst (merge_dicts v dv s proxy) = dv" for dv s
    by (rule Cons.prems[of key v]) (simp add: kv)
  have nest': "dv' = dv" if "merge_dicts v dv s proxy = (dv', a, r)" for dv dv' a r s
    using nest[of dv s] that by simp
  show ?case
    unfolding kv
    by (auto simp: Let_def set_value_dry[OF dry] fst_logged IH mutated_same
          simp del: merge_dicts.simps
          dest!: nest'
          split: sum.splits bool.splits option.splits prod.splits if_splits)
qed

lemma dry_run_dicts:
  "dry_run proxy \<Longrightarrow> fst (merge_dicts src dst strategy proxy) = dst"
proof (induction src arbitrary: dst strategy)
  case (PDict items)
  have "fst (merge_items items dst strategy proxy {}) = dst"
  proof (rule dry_run_items[OF PDict.prems])
    fix k v dv s
    assume "(k, v) \<in> set items"
    then show "fst (merge_dicts v dv s proxy) = dv"
      by (intro PDict.IH[of "(k, v)" v dv] PDict.prems) simp_all
  qed
  then show ?case by simp
qed simp_all

lemma rollback_aux:
  assumes fn: "filename dst = Some fn" and c: "fs fn = Some c"
    and nobackup: "fs (fn @ ''~'') = None"
    and fails: "merge_dicts src (data dst) strategy proxy = (d', a, Inl e)"
    and caught: "is_exception e"
  shows "\<exists>dst' fs' a'. merge_json_dicts dump src dst strategy proxy fs = ((dst', fs'), a', Inl e)
           \<and> fs' fn = Some c \<and> fs' (fn @ ''~'') = None"
proof (cases "dry_run proxy")
  case True
  from dry_run_dicts[OF True, of src "data dst" strategy] fails have "d' = data dst" by simp
  with assms True show ?thesis
    by (auto simp: merge_json_dicts_def create_backup_def isfile_def Let_def persist_def
        copy_def perform_def shutil_copy_def os_remove_def simp del: merge_dicts.simps)
next
  case False
  with assms show ?thesis
    by (auto simp: merge_json_dicts_def create_backup_def isfile_def Let_def persist_def
        copy_def perform_def shutil_copy_def os_remove_def simp del: merge_dicts.simps)
qed


subsection \<open>Rollback of a document backed by a file\<close>

text \<open>
  Claim C1, as the specification states it (any exception), fails. The destination
  \<^verbatim>\<open>{a: 99}\<close> is backed by the file \<^verbatim>\<open>doc.json\<close>; the source is \<^verbatim>\<open>{b: 2, a: 1}\<close>, and the strategy
  is interrupted at the key \<^verbatim>\<open>a\<close> (it raises \<^verbatim>\<open>KeyboardInterrupt\<close>), after \<^verbatim>\<open>b\<close> has been set and
  written. The handler of \<^verbatim>\<open>_merge_json_dicts\<close> is \<^verbatim>\<open>except Exception\<close>, which does not catch
  the interrupt, and the \<^verbatim>\<open>finally\<close> block removes the backup: the file is left with the
  half-merged document and there is no backup.
\<close>

theorem interrupt_leaves_half_merged:
  "outcome (merge_json_dicts
      (the \<circ> map_of [(PDict [(''a'', PInt 99)], ''{a: 99}''),
                     (PDict [(''a'', PInt 99), (''b'', PInt 2)], ''{a: 99, b: 2}'')])
      (PDict [(''b'', PInt 2), (''a'', PInt 1)])
      \<lparr>data = PDict [(''a'', PInt 99)], filename = Some ''doc.json''\<rparr>
      (Some (Fun1 (the \<circ> map_of [(''a'', Inl KeyboardInterrupt)])))
      \<lparr>dry_run = False\<rparr> [''doc.json'' \<mapsto> ''{a: 99}'']) = Inl KeyboardInterrupt
   \<and> snd (state (merge_json_dicts
      (the \<circ> map_of [(PDict [(''a'', PInt 99)], ''{a: 99}''),
                     (PDict [(''a'', PInt 99), (''b'', PInt 2)], ''{a: 99, b: 2}'')])
      (PDict [(''b'', PInt 2), (''a'', PInt 1)])
      \<lparr>data = PDict [(''a'', PInt 99)], filename = Some ''doc.json''\<rparr>
      (Some (Fun1 (the \<circ> map_of [(''a'', Inl KeyboardInterrupt)])))
      \<lparr>dry_run = False\<rparr> [''doc.json'' \<mapsto> ''{a: 99}''])) ''doc.json'' = Some ''{a: 99, b: 2}''
   \<and> snd (state (merge_json_dicts
      (the \<circ> map_of [(PDict [(''a'', PInt 99)], ''{a: 99}''),
                     (PDict [(''a'', PInt 99), (''b'', PInt 2)], ''{a: 99, b: 2}'')])
      (PDict [(''b'', PInt 2), (''a'', PInt 1)])
      \<lparr>data = PDict [(''a'', PInt 99)], filename = Some ''doc.json''\<rparr>
      (Some (Fun1 (the \<circ> map_of [(''a'', Inl KeyboardInterrupt)])))
      \<lparr>dry_run = False\<rparr> [''doc.json'' \<mapsto> ''{a: 99}''])) ''doc.json~'' = None"
  by (simp add: merge_json_dicts_def create_backup_def isfile_def Let_def persist_def
      shutil_copy_def os_remove_def set_value_def perform_def logged_def)

text \<open>
  Claim C1, amended. The destination document is backed by a file that exists, the inner
  document merge runs (nothing is in the way of the backup: no file at the path with
  \<^verbatim>\<open>~\<close> appended) and raises an exception that is an instance of \<^verbatim>\<open>Exception\<close>. Then
  \<^verbatim>\<open>_merge_json_dicts\<close> raises that exception, and afterwards the backing file has the
  content it had before the merge and there is no file at the backup path.
\<close>

theorem merge_json_dicts_rollback:
  assumes "filename dst = Some fn" and "fs fn = Some c" and "fs (fn @ ''~'') = None"
    and "outcome (merge_dicts src (data dst) strategy proxy) = Inl e"
    and "is_exception e"
  shows "outcome (merge_json_dicts dump src dst strategy proxy fs) = Inl e
       \<and> snd (state (merge_json_dicts dump src dst strategy proxy fs)) fn = Some c
       \<and> snd (state (merge_json_dicts dump src dst strategy proxy fs)) (fn @ ''~'') = None"
proof -
  obtain d' a where "merge_dicts src (data dst) strategy proxy = (d', a, Inl e)"
    using assms(4) by (cases "merge_dicts src (data dst) strategy proxy") auto
  from rollback_aux[OF assms(1,2,3) this assms(5), of dump] show ?thesis
    by auto
qed

text \<open>
  The instance: the same documents and file, merged with \<^verbatim>\<open>theirs\<close>, which raises
  \<^verbatim>\<open>TypeError\<close> at the key \<^verbatim>\<open>a\<close> after \<^verbatim>\<open>b\<close> has been set; the file is put back.
\<close>

theorem merge_json_dicts_rollback_witness:
  "outcome (merge_json_dicts
      (the \<circ> map_of [(PDict [(''a'', PInt 99)], ''{a: 99}''),
                     (PDict [(''a'', PInt 99), (''b'', PInt 2)], ''{a: 99, b: 2}'')])
      (PDict [(''b'', PInt 2), (''a'', PInt 1)])
      \<lparr>data = PDict [(''a'', PInt 99)], filename = Some ''doc.json''\<rparr> (Some theirs)
      \<lparr>dry_run = False\<rparr> [''doc.json'' \<mapsto> ''{a: 99}'']) = Inl TypeError
   \<and> snd (state (merge_json_dicts
      (the \<circ> map_of [(PDict [(''a'', PInt 99)], ''{a: 99}''),
                     (PDict [(''a'', PInt 99), (''b'', PInt 2)], ''{a: 99, b: 2}'')])
      (PDict [(''b'', PInt 2), (''a'', PInt 1)])
      \<lparr>data = PDict [(''a'', PInt 99)], filename = Some ''doc.json''\<rparr> (Some theirs)
      \<lparr>dry_run = False\<rparr> [''doc.json'' \<mapsto> ''{a: 99}''])) ''doc.json'' = Some ''{a: 99}''
   \<and> snd (state (merge_json_dicts
      (the \<circ> map_of [(PDict [(''a'', PInt 99)], ''{a: 99}''),
                     (PDict [(''a'', PInt 99), (''b'', PInt 2)], ''{a: 99, b: 2}'')])
      (PDict [(''b'', PInt 2), (''a'', PInt 1)])
      \<lparr>data = PDict [(''a'', PInt 99)], filename = Some ''doc.json''\<rparr> (Some theirs)
      \<lparr>dry_run = False\<rparr> [''doc.json'' \<mapsto> ''{a: 99}''])) ''doc.json~'' = None
   \<and> state (merge_dicts (PDict [(''b'', PInt 2), (''a'', PInt 1)]) (PDict [(''a'', PInt 99)])
        (Some theirs) \<lparr>dry_run = False\<rparr>) = PDict [(''a'', PInt 99), (''b'', PInt 2)]"
proof -
  have h1: "filename \<lparr>data = PDict [(''a'', PInt 99)], filename = Some ''doc.json''\<rparr>
              = Some ''doc.json''"
    and h2: "[''doc.json'' \<mapsto> ''{a: 99}''] ''doc.json'' = Some ''{a: 99}''"
    and h3: "[''doc.json'' \<mapsto> ''{a: 99}''] (''doc.json'' @ ''~'') = None"
    and h4: "outcome (merge_dicts (PDict [(''b'', PInt 2), (''a'', PInt 1)])
               (data \<lparr>data = PDict [(''a'', PInt 99)], filename = Some ''doc.json''\<rparr>)
               (Some theirs) \<lparr>dry_run = False\<rparr>) = Inl TypeError"
    and h5: "is_exception TypeError"
    and h6: "state (merge_dicts (PDict [(''b'', PInt 2), (''a'', PInt 1)]) (PDict [(''a'', PInt 99)])
        (Some theirs) \<lparr>dry_run = False\<rparr>) = PDict [(''a'', PInt 99), (''b'', PInt 2)]"
    by (simp_all add: theirs_def set_value_def perform_def logged_def)
  show ?thesis
    using merge_json_dicts_rollback[OF h1 h2 h3 h4 h5] h6
    by (simp only: append_Cons append_Nil simp_thms)
qed

section \<open>Properties of the directory merge\<close>

subsection \<open>Frame lemmas of the directory merge\<close>

lemma state_logged: "state (logged a x) = state x"
  by (cases x) (simp add: logged_def)

lemma outcome_logged: "outcome (logged a x) = outcome x"
  by (cases x) (simp add: logged_def)

lemma copy_entry_frame:
  "shutil_copy_entry now e fn d = Inr d' \<Longrightarrow> n \<noteq> fn \<Longrightarrow> map_of d' n = map_of d n"
  by (cases "(now, e, fn, d)" rule: shutil_copy_entry.cases)
     (auto simp: update_conv' split: option.splits node.splits)

lemma copytree_entry_frame:
  "shutil_copytree_entry e fn d = Inr d' \<Longrightarrow> n \<noteq> fn \<Longrightarrow> map_of d' n = map_of d n"
  by (cases "(e, fn, d)" rule: shutil_copytree_entry.cases)
     (auto simp: update_conv' split: if_splits)

lemma perform_frame:
  assumes "\<And>d'. effect d = Inr d' \<Longrightarrow> map_of d' n = map_of d n"
  shows "map_of (state (perform proxy a effect d)) n = map_of d n"
  using assms by (auto simp: perform_def split: sum.splits)

lemma merge_left_only_frame:
  "n \<notin> set names \<Longrightarrow>
   map_of (state (merge_left_only re_match now src dst left exclude proxy names d)) n = map_of d n"
proof (induction names arbitrary: d)
  case Nil
  then show ?case by simp
next
  case (Cons fn fns)
  then have ne: "n \<noteq> fn" and rest: "n \<notin> set fns" by auto
  have c: "map_of (state (copy proxy (join src fn) (join dst fn)
                (shutil_copy_entry now (map_of left fn) fn) d)) n = map_of d n"
    unfolding copy_def by (rule perform_frame) (rule copy_entry_frame[OF _ ne])
  have t: "map_of (state (copytree proxy (join src fn) (join dst fn)
                (shutil_copytree_entry (map_of left fn) fn) d)) n = map_of d n"
    unfolding copytree_def by (rule perform_frame) (rule copytree_entry_frame[OF _ ne])
  show ?case
    using c t Cons.IH[OF rest]
    by (auto simp: state_logged split: prod.splits sum.splits bool.splits)
qed


lemma listdir_iff: "n \<in> set (listdir d) \<longleftrightarrow> map_of d n \<noteq> None"
  by (simp add: listdir_def map_of_eq_None_iff)

lemma left_only_iff:
  "n \<in> set (left_only (dircmp left right)) \<longleftrightarrow>
     n \<notin> set ([''.'', ''..''] @ DEFAULT_IGNORES) \<and> map_of left n \<noteq> None \<and> map_of right n = None"
  unfolding dircmp_def Let_def by (auto simp: listdir_iff)

lemma isreg_Some: "isreg x \<Longrightarrow> x \<noteq> None"
  by (cases x rule: isreg.cases) auto

lemma diff_files_iff:
  "n \<in> set (diff_files (dircmp left right)) \<longleftrightarrow>
     n \<notin> set ([''.'', ''..''] @ DEFAULT_IGNORES) \<and>
     isreg (map_of left n) \<and> isreg (map_of right n) \<and> \<not> cmp (map_of left n) (map_of right n)"
  unfolding dircmp_def Let_def
  by (auto simp: listdir_iff dest: isreg_Some)

lemma subdirs_iff:
  "n \<in> set (subdirs (dircmp left right)) \<longleftrightarrow>
     n \<notin> set ([''.'', ''..''] @ DEFAULT_IGNORES) \<and>
     (\<exists>l r. map_of left n = Some (Dir l) \<and> map_of right n = Some (Dir r))"
proof -
  have dir: "isdir x \<and> isdir y \<longleftrightarrow> (\<exists>l r. x = Some (Dir l) \<and> y = Some (Dir r))" for x y
    by (cases x rule: isdir.cases; cases y rule: isdir.cases) auto
  show ?thesis
    unfolding dircmp_def Let_def using dir[of "map_of left n" "map_of right n"]
    by (auto simp: listdir_iff)
qed










subsection \<open>Destination-only content\<close>



subsection \<open>Exclusion inside a directory that only the source has\<close>

text \<open>
  Claim C2 does not hold of the code. The source has the directory \<^verbatim>\<open>sub\<close> with the file
  \<^verbatim>\<open>secret.txt\<close> in it, the destination is empty, and the exclusion list is \<^verbatim>\<open>['secret']\<close>.
  The name \<^verbatim>\<open>sub\<close> is not excluded, so the whole directory is copied with \<^verbatim>\<open>copytree\<close>, and
  \<^verbatim>\<open>secret.txt\<close> with it: the exclusion patterns are never tried on what is inside. When
  the destination has a directory \<^verbatim>\<open>sub\<close> too (the sibling path, the recursion into a
  common directory), the same file is excluded.
\<close>

theorem copytree_copies_excluded_file:
  "merge_dirs literal_match 9 ''/src'' ''/dst''
      [(''sub'', Dir [(''secret.txt'', File ''s'' 1)])] [] [''secret''] None \<lparr>dry_run = False\<rparr>
    = ([(''sub'', Dir [(''secret.txt'', File ''s'' 1)])],
       [CopyTree ''/src/sub'' ''/dst/sub''], Inr ())
   \<and> merge_dirs literal_match 9 ''/src'' ''/dst''
      [(''sub'', Dir [(''secret.txt'', File ''s'' 1)])] [(''sub'', Dir [])] [''secret''] None
      \<lparr>dry_run = False\<rparr>
    = ([(''sub'', Dir [])], [], Inr ())"
  by (simp add: dircmp_def listdir_def DEFAULT_IGNORES_def excluded_def literal_match_def
      copy_def copytree_def perform_def logged_def join_def Let_def)

subsection \<open>A conflict with no strategy\<close>

lemma matches_total:
  "(\<And>p. p \<in> set ps \<Longrightarrow> \<exists>m. re_match p n = Inr m) \<Longrightarrow> \<exists>bs. matches re_match ps n = Inr bs"
proof (induction ps)
  case Nil
  then show ?case by simp
next
  case (Cons p ps)
  from Cons.prems[of p] obtain m where m: "re_match p n = Inr m" by auto
  from Cons.IH Cons.prems obtain bs where "matches re_match ps n = Inr bs" by auto
  with m show ?case by simp
qed

lemma excluded_total:
  assumes "\<And>p. p \<in> set exclude \<Longrightarrow> \<exists>m. re_match p n = Inr m"
  shows "\<exists>b. excluded re_match exclude n = Inr b"
proof -
  have "\<exists>bs. matches re_match exclude n = Inr bs"
    by (rule matches_total) (rule assms)
  then show ?thesis by (auto simp: excluded_def)
qed

lemma left_only_step:
  assumes "map_of left fn \<noteq> None" and "map_of d fn = None"
    and "x = (if isreg (map_of left fn)
              then copy proxy (join src fn) (join dst fn)
                     (shutil_copy_entry now (map_of left fn) fn) d
              else copytree proxy (join src fn) (join dst fn)
                     (shutil_copytree_entry (map_of left fn) fn) d)"
  shows "outcome x = Inr ()" and "n \<noteq> fn \<Longrightarrow> map_of (state x) n = map_of d n"
proof -
  from assms(1) obtain e where e: "map_of left fn = Some e" by auto
  show "outcome x = Inr ()"
    using e assms(2) by (cases e) (auto simp: assms(3) copy_def copytree_def perform_def)
  show "map_of (state x) n = map_of d n" if "n \<noteq> fn"
    using e assms(2) that
    by (cases e) (auto simp: assms(3) copy_def copytree_def perform_def update_conv')
qed

lemma merge_left_only_ok:
  assumes valid: "\<And>n. \<exists>b. excluded re_match exclude n = Inr b"
  shows "distinct names \<Longrightarrow> \<forall>n \<in> set names. map_of left n \<noteq> None \<and> map_of d n = None \<Longrightarrow>
         outcome (merge_left_only re_match now src dst left exclude proxy names d) = Inr ()"
proof (induction names arbitrary: d)
  case Nil
  then show ?case by simp
next
  case (Cons fn fns)
  obtain b where b: "excluded re_match exclude fn = Inr b" using valid by blast
  show ?case
  proof (cases b)
    case True
    with b Cons show ?thesis by simp
  next
    case False
    define x where "x = (if isreg (map_of left fn)
                 then copy proxy (join src fn) (join dst fn)
                        (shutil_copy_entry now (map_of left fn) fn) d
                 else copytree proxy (join src fn) (join dst fn)
                        (shutil_copytree_entry (map_of left fn) fn) d)"
    from Cons.prems have l: "map_of left fn \<noteq> None" and r: "map_of d fn = None" by auto
    note step = left_only_step[OF l r x_def]
    obtain d' a u where x: "x = (d', a, u)" by (cases x)
    with step(1) have u: "u = Inr ()" by simp
    have "\<forall>n \<in> set fns. map_of left n \<noteq> None \<and> map_of d' n = None"
    proof
      fix n assume n: "n \<in> set fns"
      with Cons.prems(1) have "n \<noteq> fn" by auto
      from step(2)[OF this] x have "map_of d' n = map_of d n" by simp
      with Cons.prems(2) n show "map_of left n \<noteq> None \<and> map_of d' n = None" by simp
    qed
    with Cons.IH[of d'] Cons.prems(1)
    have "outcome (merge_left_only re_match now src dst left exclude proxy fns d') = Inr ()"
      by simp
    with b False x u show ?thesis
      by (simp add: x_def[symmetric] outcome_logged)
  qed
qed

lemma merge_diff_files_conflict:
  assumes valid: "\<And>n. \<exists>b. excluded re_match exclude n = Inr b"
  shows "sorted names \<Longrightarrow> fn \<in> set names \<Longrightarrow> excluded re_match exclude fn = Inr False \<Longrightarrow>
         \<exists>fn'. merge_diff_files re_match now src dst left exclude None proxy names d
                 = (d, [], Inl (MergeConflict fn'))
               \<and> fn' \<in> set names \<and> fn' \<le> fn \<and> excluded re_match exclude fn' = Inr False"
proof (induction names)
  case Nil
  then show ?case by simp
next
  case (Cons n ns)
  obtain b where b: "excluded re_match exclude n = Inr b" using valid by blast
  show ?case
  proof (cases b)
    case False
    from Cons.prems(1,2) have "n \<le> fn" by auto
    with b False show ?thesis by auto
  next
    case True
    with b Cons.prems(3) have "fn \<noteq> n" by auto
    with Cons.prems have "fn \<in> set ns" and "sorted ns" by auto
    from Cons.IH[OF this(2,1) Cons.prems(3)] b True show ?thesis by auto
  qed
qed

lemma sorted_diff_files: "sorted (diff_files (dircmp left right))"
  unfolding dircmp_def Let_def by (simp add: sorted_wrt_filter)

lemma distinct_left_only: "distinct (left_only (dircmp left right))"
  unfolding dircmp_def Let_def listdir_def by simp

text \<open>
  Claim C5, as the specification states it, fails in four ways. Two files conflict,
  \<^verbatim>\<open>a.txt\<close> and \<^verbatim>\<open>b.txt\<close>: the error names \<^verbatim>\<open>a.txt\<close>, the first, and not \<^verbatim>\<open>b.txt\<close>. The file is
  called \<^verbatim>\<open>tags\<close>, a name the directory comparison ignores: no error, the merge returns.
  The two files \<^verbatim>\<open>x.txt\<close> have different contents of the same size and the same modification
  time: the comparison takes them for equal, no error. An exclusion pattern does not
  compile: the error is the matcher's, not a conflict.
\<close>

theorem conflict_not_named:
  "merge_dirs literal_match 9 ''/src'' ''/dst''
      [(''b.txt'', File ''new b'' 2), (''a.txt'', File ''new a'' 2)]
      [(''b.txt'', File ''old b'' 1), (''a.txt'', File ''old a'' 1)] [] None \<lparr>dry_run = False\<rparr>
    = ([(''b.txt'', File ''old b'' 1), (''a.txt'', File ''old a'' 1)], [],
       Inl (MergeConflict ''a.txt''))
   \<and> merge_dirs literal_match 9 ''/src'' ''/dst''
      [(''tags'', File ''new'' 2)] [(''tags'', File ''old'' 1)] [] None \<lparr>dry_run = False\<rparr>
    = ([(''tags'', File ''old'' 1)], [], Inr ())
   \<and> merge_dirs literal_match 9 ''/src'' ''/dst''
      [(''x.txt'', File ''new'' 1)] [(''x.txt'', File ''old'' 1)] [] None \<lparr>dry_run = False\<rparr>
    = ([(''x.txt'', File ''old'' 1)], [], Inr ())
   \<and> merge_dirs (curry (the \<circ> map_of [((''['', ''x.txt''), Inl RegexError)])) 9 ''/src'' ''/dst''
      [(''x.txt'', File ''new'' 2)] [(''x.txt'', File ''old'' 1)] [''[''] None
      \<lparr>dry_run = False\<rparr>
    = ([(''x.txt'', File ''old'' 1)], [], Inl RegexError)"
  by (simp add: dircmp_def listdir_def DEFAULT_IGNORES_def excluded_def literal_match_def
      copy_def copytree_def perform_def logged_def join_def Let_def)

text \<open>
  Claim C5, amended. Both directories have a regular file of the name \<open>fn\<close>, the directory
  comparison finds the two different (\<open>cmp\<close>: different sizes, or different modification
  times and different contents) and does not ignore the name, every exclusion pattern is
  a regular expression that compiles, and \<open>fn\<close> is not excluded. Then the directory merge
  with no strategy raises \<^verbatim>\<open>MergeConflict\<close> naming the first such entry in the order of the
  names, which is \<open>fn\<close> or comes before it, and the destination still has its own file
  under \<open>fn\<close>.
\<close>

theorem merge_dirs_conflict:
  assumes l: "map_of left fn = Some (File a s)" and r: "map_of right fn = Some (File b t)"
    and different: "\<not> cmp (Some (File a s)) (Some (File b t))"
    and seen: "fn \<notin> set ([''.'', ''..''] @ DEFAULT_IGNORES)"
    and compile: "\<And>p n. p \<in> set exclude \<Longrightarrow> \<exists>m. re_match p n = Inr m"
    and not_excluded: "excluded re_match exclude fn = Inr False"
  shows "(\<exists>fn'. outcome (merge_dirs re_match now src dst left right exclude None proxy)
                  = Inl (MergeConflict fn')
               \<and> fn' \<le> fn \<and> fn' \<in> set (diff_files (dircmp left right))
               \<and> excluded re_match exclude fn' = Inr False)
       \<and> map_of (state (merge_dirs re_match now src dst left right exclude None proxy)) fn
           = Some (File b t)"
proof -
  have valid: "\<exists>b. excluded re_match exclude n = Inr b" for n
    by (rule excluded_total) (rule compile)
  define diff where "diff = dircmp left right"
  define s1 where "s1 = merge_left_only re_match now src dst left exclude proxy (left_only diff) right"
  have "\<forall>n \<in> set (left_only diff). map_of left n \<noteq> None \<and> map_of right n = None"
    by (auto simp: diff_def left_only_iff)
  with merge_left_only_ok[OF valid distinct_left_only, of left right]
  have ok1: "outcome s1 = Inr ()"
    by (simp add: s1_def diff_def)
  have "fn \<notin> set (left_only diff)"
    using r by (simp add: diff_def left_only_iff)
  from merge_left_only_frame[OF this]
  have kept: "map_of (state s1) fn = Some (File b t)"
    by (simp add: s1_def r)
  have mem: "fn \<in> set (diff_files diff)"
    using l r different seen by (simp add: diff_def diff_files_iff)
  from merge_diff_files_conflict[OF valid sorted_diff_files mem[unfolded diff_def] not_excluded]
  obtain fn' where conflict:
    "merge_diff_files re_match now src dst left exclude None proxy (diff_files diff) (state s1)
       = (state s1, [], Inl (MergeConflict fn'))"
    and fn': "fn' \<in> set (diff_files diff)" "fn' \<le> fn" "excluded re_match exclude fn' = Inr False"
    unfolding diff_def by blast
  obtain d1 a1 where s1: "s1 = (d1, a1, Inr ())"
    using ok1 by (cases s1) auto
  have run: "merge_dirs re_match now src dst left right exclude None proxy
               = (d1, a1, Inl (MergeConflict fn'))"
    using conflict s1
    by (simp add: Let_def s1_def[symmetric] diff_def[symmetric] logged_def)
  show ?thesis
    using run fn' kept s1 unfolding diff_def
    by (auto simp del: merge_dirs.simps)
qed

text \<open>
  The instance: the two files \<^verbatim>\<open>x.txt\<close> differ, \<^verbatim>\<open>new.txt\<close> is only in the source, and the
  exclusion list is \<^verbatim>\<open>['secret']\<close>. The error names \<^verbatim>\<open>x.txt\<close>, and the destination keeps its
  \<^verbatim>\<open>x.txt\<close> (the file \<^verbatim>\<open>new.txt\<close> was copied before the conflict was met).
\<close>

theorem merge_dirs_conflict_witness:
  "merge_dirs literal_match 9 ''/src'' ''/dst''
      [(''x.txt'', File ''new'' 2), (''new.txt'', File ''n'' 1)] [(''x.txt'', File ''old'' 1)]
      [''secret''] None \<lparr>dry_run = False\<rparr>
    = ([(''x.txt'', File ''old'' 1), (''new.txt'', File ''n'' 9)],
       [CopyFile ''/src/new.txt'' ''/dst/new.txt''], Inl (MergeConflict ''x.txt''))
   \<and> map_of (state (merge_dirs literal_match 9 ''/src'' ''/dst''
      [(''x.txt'', File ''new'' 2), (''new.txt'', File ''n'' 1)] [(''x.txt'', File ''old'' 1)]
      [''secret''] None \<lparr>dry_run = False\<rparr>)) ''x.txt'' = Some (File ''old'' 1)"
proof -
  have h1: "map_of [(''x.txt'', File ''new'' 2), (''new.txt'', File ''n'' 1)] ''x.txt''
              = Some (File ''new'' 2)"
    and h2: "map_of [(''x.txt'', File ''old'' 1)] ''x.txt'' = Some (File ''old'' 1)"
    and h3: "\<not> cmp (Some (File ''new'' 2)) (Some (File ''old'' 1))"
    and h4: "''x.txt'' \<notin> set ([''.'', ''..''] @ DEFAULT_IGNORES)"
    and h5: "\<And>p n. p \<in> set [''secret''] \<Longrightarrow> \<exists>m. literal_match p n = Inr m"
    and h6: "excluded literal_match [''secret''] ''x.txt'' = Inr False"
    by (simp_all add: DEFAULT_IGNORES_def excluded_def literal_match_def)
  have run: "merge_dirs literal_match 9 ''/src'' ''/dst''
      [(''x.txt'', File ''new'' 2), (''new.txt'', File ''n'' 1)] [(''x.txt'', File ''old'' 1)]
      [''secret''] None \<lparr>dry_run = False\<rparr>
    = ([(''x.txt'', File ''old'' 1), (''new.txt'', File ''n'' 9)],
       [CopyFile ''/src/new.txt'' ''/dst/new.txt''], Inl (MergeConflict ''x.txt''))"
    by (simp add: dircmp_def listdir_def DEFAULT_IGNORES_def excluded_def literal_match_def
        copy_def copytree_def perform_def logged_def join_def Let_def)
  from merge_dirs_conflict[OF h1 h2 h3 h4 h5 h6, of 9 "''/src''" "''/dst''" "\<lparr>dry_run = False\<rparr>"]
  have "map_of (state (merge_dirs literal_match 9 ''/src'' ''/dst''
      [(''x.txt'', File ''new'' 2), (''new.txt'', File ''n'' 1)] [(''x.txt'', File ''old'' 1)]
      [''secret''] None \<lparr>dry_run = False\<rparr>)) ''x.txt'' = Some (File ''old'' 1)"
    by (rule conjunct2)
  with run show ?thesis
    by (intro conjI)
qed

section \<open>Properties of the job and project merge\<close>

subsection \<open>The schema check\<close>

text \<open>
  Claim C7. With \<^verbatim>\<open>check_schema\<close> set, a destination schema that is not empty and a
  difference between the two schemas that is not empty one way or the other, the project
  merge raises \<^verbatim>\<open>MergeSchemaConflict\<close> with the two schemas. Nothing has happened by then:
  nothing is logged, and the destination project (its document and its jobs), the files
  and the caller's exclusion list are as they were.
\<close>

theorem schema_conflict_raised_first:
  assumes "check_schema" and "detect_schema destination \<noteq> {}"
    and "detect_schema source - detect_schema destination \<noteq> {}
         \<or> detect_schema destination - detect_schema source \<noteq> {}"
  shows "merge_projects re_match now dump detect_schema source destination exclude strategy
           doc_strategy selection check_schema dry_run_flag fs
         = ((exclude, destination, fs), [],
            Inl (MergeSchemaConflict (detect_schema source) (detect_schema destination)))"
proof -
  from assms(3) have "detect_schema source \<noteq> detect_schema destination" by auto
  then have "source \<noteq> destination" by auto
  with assms \<open>detect_schema source \<noteq> detect_schema destination\<close> show ?thesis
    by (simp add: merge_projects_def Let_def)
qed

text \<open>
  The instance: the schema of a project is the set of the keys of its jobs' documents;
  the one job of the source has the key \<^verbatim>\<open>a\<close>, the one job of the destination the key \<^verbatim>\<open>b\<close>.
\<close>

theorem schema_conflict_raised_first_witness:
  "merge_projects literal_match 9 (\<lambda>d. ''doc'')
     (\<lambda>p. set (concat (map (\<lambda>j. case data (doc j) of PDict kv \<Rightarrow> map fst kv | _ \<Rightarrow> []) (jobs p))))
     \<lparr>root_directory = ''/src'', workspace_dir = ''/src/workspace'',
       document = \<lparr>data = PDict [], filename = None\<rparr>,
       jobs = [\<lparr>job_type = ''Job'', job_id = ''1'', FN_MANIFEST = ''signac_statepoint.json'',
                FN_DOCUMENT = ''signac_job_document.json'', workspace = ''/src/workspace/1'',
                tree = [], doc = \<lparr>data = PDict [(''a'', PInt 1)], filename = None\<rparr>\<rparr>]\<rparr>
     \<lparr>root_directory = ''/dst'', workspace_dir = ''/dst/workspace'',
       document = \<lparr>data = PDict [], filename = None\<rparr>,
       jobs = [\<lparr>job_type = ''Job'', job_id = ''2'', FN_MANIFEST = ''signac_statepoint.json'',
                FN_DOCUMENT = ''signac_job_document.json'', workspace = ''/dst/workspace/2'',
                tree = [], doc = \<lparr>data = PDict [(''b'', PInt 2)], filename = None\<rparr>\<rparr>]\<rparr>
     ExcludeNone None None None True False Map.empty
   = ((ExcludeNone,
       \<lparr>root_directory = ''/dst'', workspace_dir = ''/dst/workspace'',
         document = \<lparr>data = PDict [], filename = None\<rparr>,
         jobs = [\<lparr>job_type = ''Job'', job_id = ''2'', FN_MANIFEST = ''signac_statepoint.json'',
                  FN_DOCUMENT = ''signac_job_document.json'', workspace = ''/dst/workspace/2'',
                  tree = [], doc = \<lparr>data = PDict [(''b'', PInt 2)], filename = None\<rparr>\<rparr>]\<rparr>,
       Map.empty), [], Inl (MergeSchemaConflict {''a''} {''b''}))"
proof -
  let ?schema = "\<lambda>p. set (concat (map (\<lambda>j. case data (doc j) of PDict kv \<Rightarrow> map fst kv | _ \<Rightarrow> [])
                    (jobs p)))"
  let ?source = "\<lparr>root_directory = ''/src'', workspace_dir = ''/src/workspace'',
       document = \<lparr>data = PDict [], filename = None\<rparr>,
       jobs = [\<lparr>job_type = ''Job'', job_id = ''1'', FN_MANIFEST = ''signac_statepoint.json'',
                FN_DOCUMENT = ''signac_job_document.json'', workspace = ''/src/workspace/1'',
                tree = [], doc = \<lparr>data = PDict [(''a'', PInt 1)], filename = None\<rparr>\<rparr>]\<rparr>"
  let ?destination = "\<lparr>root_directory = ''/dst'', workspace_dir = ''/dst/workspace'',
       document = \<lparr>data = PDict [], filename = None\<rparr>,
       jobs = [\<lparr>job_type = ''Job'', job_id = ''2'', FN_MANIFEST = ''signac_statepoint.json'',
                FN_DOCUMENT = ''signac_job_document.json'', workspace = ''/dst/workspace/2'',
                tree = [], doc = \<lparr>data = PDict [(''b'', PInt 2)], filename = None\<rparr>\<rparr>]\<rparr>"
  have s: "?schema ?source = {''a''}" and d: "?schema ?destination = {''b''}"
    by simp_all
  have h1: "True" and h2: "?schema ?destination \<noteq> {}"
    and h3: "?schema ?source - ?schema ?destination \<noteq> {}
             \<or> ?schema ?destination - ?schema ?source \<noteq> {}"
    by simp_all
  show ?thesis
    using schema_conflict_raised_first[where detect_schema = ?schema and source = ?source
        and destination = ?destination and check_schema = True, OF h1 h2 h3] s d
    by (simp only:)
qed

subsection \<open>The exclusion list of the caller\<close>

lemma merge_jobs_exclude:
  assumes "job_type src_job = job_type dst_job" and "job_id src_job = job_id dst_job"
    and "FN_MANIFEST src_job = FN_MANIFEST dst_job"
    and "FN_DOCUMENT src_job = FN_DOCUMENT dst_job"
  shows "fst (state (merge_jobs re_match now dump src_job dst_job (ExcludeList xs) strategy
                      doc_strategy dry_run_or_proxy fs))
         = ExcludeList (xs @ [FN_MANIFEST src_job, FN_DOCUMENT src_job])"
  using assms
  by (simp add: merge_jobs_def Let_def split: prod.splits sum.splits)

text \<open>
  Claim C10. When the caller passes a list and the two jobs pass the assertions, the list
  the caller holds is, after \<^verbatim>\<open>merge_jobs\<close>, the list it passed with the manifest and the
  document file names appended, whatever the outcome of the merge. A second merge that
  is given the same list object appends the two names of its job again.
\<close>

theorem merge_jobs_extends_exclude:
  assumes "job_type src_job = job_type dst_job" and "job_id src_job = job_id dst_job"
    and "FN_MANIFEST src_job = FN_MANIFEST dst_job"
    and "FN_DOCUMENT src_job = FN_DOCUMENT dst_job"
    and "job_type src_job' = job_type dst_job'" and "job_id src_job' = job_id dst_job'"
    and "FN_MANIFEST src_job' = FN_MANIFEST dst_job'"
    and "FN_DOCUMENT src_job' = FN_DOCUMENT dst_job'"
  shows "fst (state (merge_jobs re_match now dump src_job dst_job (ExcludeList xs) strategy
                      doc_strategy dry_run_or_proxy fs))
         = ExcludeList (xs @ [FN_MANIFEST src_job, FN_DOCUMENT src_job])
       \<and> fst (state (merge_jobs re_match now dump src_job' dst_job'
                      (fst (state (merge_jobs re_match now dump src_job dst_job (ExcludeList xs)
                                     strategy doc_strategy dry_run_or_proxy fs)))
                      strategy doc_strategy dry_run_or_proxy fs'))
         = ExcludeList (xs @ [FN_MANIFEST src_job, FN_DOCUMENT src_job]
                           @ [FN_MANIFEST src_job', FN_DOCUMENT src_job'])"
  using merge_jobs_exclude[OF assms(1,2,3,4)] merge_jobs_exclude[OF assms(5,6,7,8)]
  by simp

text \<open>
  The instance: one call with the list \<^verbatim>\<open>['tmp']\<close>; and the project merge of two jobs that
  the destination has too, with that list: the caller's list ends with the two reserved
  names twice.
\<close>

theorem merge_jobs_extends_exclude_witness:
  "fst (state (merge_jobs literal_match 9 (\<lambda>d. ''doc'')
       \<lparr>job_type = ''Job'', job_id = ''1'', FN_MANIFEST = ''signac_statepoint.json'',
         FN_DOCUMENT = ''signac_job_document.json'', workspace = ''/src/workspace/1'',
         tree = [], doc = \<lparr>data = PDict [], filename = None\<rparr>\<rparr>
       \<lparr>job_type = ''Job'', job_id = ''1'', FN_MANIFEST = ''signac_statepoint.json'',
         FN_DOCUMENT = ''signac_job_document.json'', workspace = ''/dst/workspace/1'',
         tree = [], doc = \<lparr>data = PDict [], filename = None\<rparr>\<rparr>
       (ExcludeList [''tmp'']) None None (DryRunFlag False) Map.empty))
     = ExcludeList [''tmp'', ''signac_statepoint.json'', ''signac_job_document.json'']
   \<and> fst (state (merge_projects literal_match 9 (\<lambda>d. ''doc'') (\<lambda>p. {})
       \<lparr>root_directory = ''/src'', workspace_dir = ''/src/workspace'',
         document = \<lparr>data = PDict [], filename = None\<rparr>,
         jobs = [\<lparr>job_type = ''Job'', job_id = ''1'', FN_MANIFEST = ''signac_statepoint.json'',
                  FN_DOCUMENT = ''signac_job_document.json'', workspace = ''/src/workspace/1'',
                  tree = [], doc = \<lparr>data = PDict [], filename = None\<rparr>\<rparr>,
                 \<lparr>job_type = ''Job'', job_id = ''2'', FN_MANIFEST = ''signac_statepoint.json'',
                  FN_DOCUMENT = ''signac_job_document.json'', workspace = ''/src/workspace/2'',
                  tree = [], doc = \<lparr>data = PDict [], filename = None\<rparr>\<rparr>]\<rparr>
       \<lparr>root_directory = ''/dst'', workspace_dir = ''/dst/workspace'',
         document = \<lparr>data = PDict [], filename = None\<rparr>,
         jobs = [\<lparr>job_type = ''Job'', job_id = ''1'', FN_MANIFEST = ''signac_statepoint.json'',
                  FN_DOCUMENT = ''signac_job_document.json'', workspace = ''/dst/workspace/1'',
                  tree = [], doc = \<lparr>data = PDict [], filename = None\<rparr>\<rparr>,
                 \<lparr>job_type = ''Job'', job_id = ''2'', FN_MANIFEST = ''signac_statepoint.json'',
                  FN_DOCUMENT = ''signac_job_document.json'', workspace = ''/dst/workspace/2'',
                  tree = [], doc = \<lparr>data = PDict [], filename = None\<rparr>\<rparr>]\<rparr>
       (ExcludeList [''tmp'']) None None None False False Map.empty))
     = ExcludeList [''tmp'', ''signac_statepoint.json'', ''signac_job_document.json'',
                    ''signac_statepoint.json'', ''signac_job_document.json'']"
proof -
  let ?s1 = "\<lparr>job_type = ''Job'', job_id = ''1'', FN_MANIFEST = ''signac_statepoint.json'',
         FN_DOCUMENT = ''signac_job_document.json'', workspace = ''/src/workspace/1'',
         tree = [], doc = \<lparr>data = PDict [], filename = None\<rparr>\<rparr>"
  let ?d1 = "\<lparr>job_type = ''Job'', job_id = ''1'', FN_MANIFEST = ''signac_statepoint.json'',
         FN_DOCUMENT = ''signac_job_document.json'', workspace = ''/dst/workspace/1'',
         tree = [], doc = \<lparr>data = PDict [], filename = None\<rparr>\<rparr>"
  have h: "job_type ?s1 = job_type ?d1" "job_id ?s1 = job_id ?d1"
    "FN_MANIFEST ?s1 = FN_MANIFEST ?d1" "FN_DOCUMENT ?s1 = FN_DOCUMENT ?d1"
    by simp_all
  have one: "fst (state (merge_jobs literal_match 9 (\<lambda>d. ''doc'') ?s1 ?d1
       (ExcludeList [''tmp'']) None None (DryRunFlag False) Map.empty))
     = ExcludeList [''tmp'', ''signac_statepoint.json'', ''signac_job_document.json'']"
    by (rule trans[OF merge_jobs_extends_exclude[OF h h, THEN conjunct1]]) simp
  have two: "fst (state (merge_projects literal_match 9 (\<lambda>d. ''doc'') (\<lambda>p. {})
       \<lparr>root_directory = ''/src'', workspace_dir = ''/src/workspace'',
         document = \<lparr>data = PDict [], filename = None\<rparr>,
         jobs = [\<lparr>job_type = ''Job'', job_id = ''1'', FN_MANIFEST = ''signac_statepoint.json'',
                  FN_DOCUMENT = ''signac_job_document.json'', workspace = ''/src/workspace/1'',
                  tree = [], doc = \<lparr>data = PDict [], filename = None\<rparr>\<rparr>,
                 \<lparr>job_type = ''Job'', job_id = ''2'', FN_MANIFEST = ''signac_statepoint.json'',
                  FN_DOCUMENT = ''signac_job_document.json'', workspace = ''/src/workspace/2'',
                  tree = [], doc = \<lparr>data = PDict [], filename = None\<rparr>\<rparr>]\<rparr>
       \<lparr>root_directory = ''/dst'', workspace_dir = ''/dst/workspace'',
         document = \<lparr>data = PDict [], filename = None\<rparr>,
         jobs = [\<lparr>job_type = ''Job'', job_id = ''1'', FN_MANIFEST = ''signac_statepoint.json'',
                  FN_DOCUMENT = ''signac_job_document.json'', workspace = ''/dst/workspace/1'',
                  tree = [], doc = \<lparr>data = PDict [], filename = None\<rparr>\<rparr>,
                 \<lparr>job_type = ''Job'', job_id = ''2'', FN_MANIFEST = ''signac_statepoint.json'',
                  FN_DOCUMENT = ''signac_job_document.json'', workspace = ''/dst/workspace/2'',
                  tree = [], doc = \<lparr>data = PDict [], filename = None\<rparr>\<rparr>]\<rparr>
       (ExcludeList [''tmp'']) None None None False False Map.empty))
     = ExcludeList [''tmp'', ''signac_statepoint.json'', ''signac_job_document.json'',
                    ''signac_statepoint.json'', ''signac_job_document.json'']"
    by (simp add: merge_projects_def merge_json_dicts_def persist_def clone_def open_job_def
        put_job_def merge_jobs_def dircmp_def listdir_def logged_def Let_def)
  show ?thesis
    by (rule conjI[OF one two])
qed

subsection \<open>Cloning in a dry run\<close>

lemma put_job_ids: "map job_id (jobs (put_job p j')) = map job_id (jobs p)"
  by (simp add: put_job_def)

lemma put_job_ids_set: "job_id ` set (jobs (put_job p j')) = job_id ` set (jobs p)"
  using put_job_ids[of p j', THEN arg_cong, of set] by simp

lemma clone_ids:
  "clone destination j fs = Inr (destination', fs') \<Longrightarrow>
   set (map job_id (jobs destination')) = insert (job_id j) (set (map job_id (jobs destination)))"
  by (auto simp: clone_def Let_def split: if_splits)

lemma clone_exists:
  "clone destination j fs = Inl e \<Longrightarrow> job_id j \<in> set (map job_id (jobs destination))"
  by (auto simp: clone_def Let_def split: if_splits)

lemma merge_project_jobs_ids_grow:
  "set (map job_id (jobs destination))
     \<subseteq> set (map job_id (jobs (fst (snd (state
           (merge_project_jobs re_match now dump strategy doc_strategy selection proxy js exclude
              destination fs skipped_keys))))))"
proof (induction js arbitrary: exclude destination fs skipped_keys)
  case Nil
  then show ?case by simp
next
  case (Cons j js)
  show ?case
  proof (cases "selection \<noteq> None \<and> job_id j \<notin> set (the selection)")
    case True
    with Cons.IH[where exclude = exclude and destination = destination and fs = fs and skipped_keys = skipped_keys] show ?thesis by simp
  next
    case selected: False
    show ?thesis
    proof (cases "clone destination j fs")
      case (Inr res)
      obtain destination' fs' where res: "res = (destination', fs')" by (cases res)
      from clone_ids[OF Inr[unfolded res]] Cons.IH[where exclude = exclude and destination = destination' and fs = fs' and skipped_keys = skipped_keys]
      show ?thesis using selected Inr res by auto
    next
      case (Inl e)
      show ?thesis
      proof (cases "open_job destination (job_id j)")
        case failed: (Inl e')
        with selected Inl show ?thesis by auto
      next
        case (Inr dst_job)
        obtain exclude' dst_job' fs' a r where run:
          "merge_jobs re_match now dump j dst_job exclude strategy doc_strategy
             (DryRunProxy proxy) fs = ((exclude', dst_job', fs'), a, r)"
          by (cases "merge_jobs re_match now dump j dst_job exclude strategy doc_strategy
             (DryRunProxy proxy) fs") auto
        show ?thesis
        proof (cases r)
          case failed: (Inl e')
          with selected Inl Inr run show ?thesis by (auto simp: put_job_ids_set)
        next
          case ok: (Inr skipped)
          from Cons.IH[where exclude = exclude' and destination = "put_job destination dst_job'" and fs = fs' and skipped_keys = "skipped_keys \<union> skipped"]
          show ?thesis
            using selected Inl Inr run ok by (auto simp: put_job_ids_set state_logged)
        qed
      qed
    qed
  qed
qed

lemma merge_project_jobs_processed:
  "outcome (merge_project_jobs re_match now dump strategy doc_strategy selection proxy js exclude
              destination fs skipped_keys) = Inr sk \<Longrightarrow>
   j \<in> set js \<Longrightarrow> selection = None \<or> job_id j \<in> set (the selection) \<Longrightarrow>
   job_id j \<in> set (map job_id (jobs (fst (snd (state
           (merge_project_jobs re_match now dump strategy doc_strategy selection proxy js exclude
              destination fs skipped_keys))))))"
proof (induction js arbitrary: exclude destination fs skipped_keys)
  case Nil
  then show ?case by simp
next
  case (Cons j0 js)
  let ?loop = "merge_project_jobs re_match now dump strategy doc_strategy selection proxy"
  show ?case
  proof (cases "selection \<noteq> None \<and> job_id j0 \<notin> set (the selection)")
    case True
    then have unfold: "?loop (j0 # js) exclude destination fs skipped_keys
                     = ?loop js exclude destination fs skipped_keys"
      by simp
    from True Cons.prems have "j \<in> set js" by auto
    from Cons.IH[OF Cons.prems(1)[unfolded unfold] this Cons.prems(3)]
    show ?thesis unfolding unfold .
  next
    case selected: False
    show ?thesis
    proof (cases "clone destination j0 fs")
      case (Inr res)
      obtain destination' fs' where res: "res = (destination', fs')" by (cases res)
      have unfold: "?loop (j0 # js) exclude destination fs skipped_keys
                     = ?loop js exclude destination' fs' skipped_keys"
        using selected Inr res by auto
      have here: "job_id j0 \<in> set (map job_id (jobs destination'))"
        using clone_ids[OF Inr[unfolded res]] by simp
      show ?thesis
      proof (cases "j = j0")
        case True
        with here merge_project_jobs_ids_grow[where destination = destination'
            and re_match = re_match and now = now and dump = dump and strategy = strategy
            and doc_strategy = doc_strategy and selection = selection and proxy = proxy
            and js = js and exclude = exclude and fs = fs' and skipped_keys = skipped_keys]
        show ?thesis unfolding unfold by blast
      next
        case False
        with Cons.prems have "j \<in> set js" by auto
        from Cons.IH[OF Cons.prems(1)[unfolded unfold] this Cons.prems(3)]
        show ?thesis unfolding unfold .
      qed
    next
      case (Inl e)
      from clone_exists[OF Inl] have here: "job_id j0 \<in> set (map job_id (jobs destination))" .
      have e: "e = DestinationExistsError"
        using Inl by (auto simp: clone_def Let_def split: if_splits)
      show ?thesis
      proof (cases "open_job destination (job_id j0)")
        case failed: (Inl e')
        have "?loop (j0 # js) exclude destination fs skipped_keys
                = ((exclude, destination, fs), [], Inl e')"
          using selected Inl e failed by auto
        with Cons.prems(1) show ?thesis by simp
      next
        case (Inr dst_job)
        obtain exclude' dst_job' fs' a r where run:
          "merge_jobs re_match now dump j0 dst_job exclude strategy doc_strategy
             (DryRunProxy proxy) fs = ((exclude', dst_job', fs'), a, r)"
          by (cases "merge_jobs re_match now dump j0 dst_job exclude strategy doc_strategy
             (DryRunProxy proxy) fs") auto
        show ?thesis
        proof (cases r)
          case failed: (Inl e')
          have "?loop (j0 # js) exclude destination fs skipped_keys
                = ((exclude', put_job destination dst_job', fs'), a, Inl e')"
            using selected Inl e Inr run failed by auto
          with Cons.prems(1) show ?thesis by simp
        next
          case ok: (Inr skipped)
          let ?rest = "?loop js exclude' (put_job destination dst_job') fs' (skipped_keys \<union> skipped)"
          have unfold: "?loop (j0 # js) exclude destination fs skipped_keys = logged a ?rest"
            using selected Inl e Inr run ok by auto
          have out: "outcome ?rest = Inr sk"
            using Cons.prems(1) unfolding unfold by (simp add: outcome_logged)
          show ?thesis
          proof (cases "j = j0")
            case True
            from here have "job_id j0 \<in> set (map job_id (jobs (put_job destination dst_job')))"
              by (simp add: put_job_ids)
            with True merge_project_jobs_ids_grow[where destination = "put_job destination dst_job'"
                and re_match = re_match and now = now and dump = dump and strategy = strategy
                and doc_strategy = doc_strategy and selection = selection and proxy = proxy
                and js = js and exclude = exclude' and fs = fs'
                and skipped_keys = "skipped_keys \<union> skipped"]
            have "job_id j \<in> set (map job_id (jobs (fst (snd (state ?rest)))))"
              by blast
            then show ?thesis unfolding unfold by (simp add: state_logged)
          next
            case False
            with Cons.prems have "j \<in> set js" by auto
            from Cons.IH[OF out this Cons.prems(3)]
            show ?thesis unfolding unfold by (simp add: state_logged)
          qed
        qed
      qed
    qed
  qed
qed

text \<open>
  Claim C3 does not hold of the code. \<^verbatim>\<open>merge_projects\<close> calls \<^verbatim>\<open>destination.clone(src_job)\<close>
  on the destination itself, not through the proxy. So also in a dry run, when the merge
  returns, every job of the source (of the selection, when there is one) is a job of the
  destination: a job that the destination did not have has been cloned into it.
\<close>

theorem dry_run_clones_jobs:
  assumes "outcome (merge_projects re_match now dump detect_schema source destination exclude
                      strategy doc_strategy selection check_schema True fs) = Inr sk"
    and "j \<in> set (jobs source)" and "selection = None \<or> job_id j \<in> set (the selection)"
    and "job_id j \<notin> set (map job_id (jobs destination))"
  shows "job_id j \<in> set (map job_id (jobs (fst (snd (state
            (merge_projects re_match now dump detect_schema source destination exclude
               strategy doc_strategy selection check_schema True fs))))))
       \<and> jobs (fst (snd (state
            (merge_projects re_match now dump detect_schema source destination exclude
               strategy doc_strategy selection check_schema True fs)))) \<noteq> jobs destination"
proof -
  obtain doc' fs' a r where doc_run:
    "merge_json_dicts dump (data (document source)) (document destination) doc_strategy
       \<lparr>dry_run = True\<rparr> fs = ((doc', fs'), a, r)"
    by (cases "merge_json_dicts dump (data (document source)) (document destination) doc_strategy
       \<lparr>dry_run = True\<rparr> fs") auto
  from assms(1) obtain skipped where r: "r = Inr skipped"
    and unfold: "merge_projects re_match now dump detect_schema source destination exclude
                      strategy doc_strategy selection check_schema True fs
        = logged a (merge_project_jobs re_match now dump strategy doc_strategy selection
             \<lparr>dry_run = True\<rparr> (jobs source) exclude (destination\<lparr>document := doc'\<rparr>) fs' skipped)"
    using doc_run
    by (cases r) (auto simp: merge_projects_def Let_def split: if_splits)
  from assms(1) have "outcome (merge_project_jobs re_match now dump strategy doc_strategy selection
             \<lparr>dry_run = True\<rparr> (jobs source) exclude (destination\<lparr>document := doc'\<rparr>) fs' skipped)
          = Inr sk"
    unfolding unfold by (simp add: outcome_logged)
  from merge_project_jobs_processed[OF this assms(2,3)]
  have mem: "job_id j \<in> set (map job_id (jobs (fst (snd (state
            (merge_projects re_match now dump detect_schema source destination exclude
               strategy doc_strategy selection check_schema True fs))))))"
    unfolding unfold by (simp add: state_logged)
  with assms(4) show ?thesis by auto
qed

text \<open>
  The instance: the source has one job, the destination has none, and the merge is a dry
  run. Nothing is logged (no proxy call was made), and the destination has the job.
\<close>

theorem dry_run_clones_jobs_witness:
  "merge_projects literal_match 9 (\<lambda>d. ''doc'') (\<lambda>p. {})
     \<lparr>root_directory = ''/src'', workspace_dir = ''/src/workspace'',
       document = \<lparr>data = PDict [], filename = None\<rparr>,
       jobs = [\<lparr>job_type = ''Job'', job_id = ''1'', FN_MANIFEST = ''signac_statepoint.json'',
                FN_DOCUMENT = ''signac_job_document.json'', workspace = ''/src/workspace/1'',
                tree = [(''data.txt'', File ''x'' 1)],
                doc = \<lparr>data = PDict [(''a'', PInt 1)], filename = None\<rparr>\<rparr>]\<rparr>
     \<lparr>root_directory = ''/dst'', workspace_dir = ''/dst/workspace'',
       document = \<lparr>data = PDict [], filename = None\<rparr>, jobs = []\<rparr>
     ExcludeNone None None None True True Map.empty
   = ((ExcludeNone,
       \<lparr>root_directory = ''/dst'', workspace_dir = ''/dst/workspace'',
         document = \<lparr>data = PDict [], filename = None\<rparr>,
         jobs = [\<lparr>job_type = ''Job'', job_id = ''1'', FN_MANIFEST = ''signac_statepoint.json'',
                  FN_DOCUMENT = ''signac_job_document.json'', workspace = ''/dst/workspace/1'',
                  tree = [(''data.txt'', File ''x'' 1)],
                  doc = \<lparr>data = PDict [(''a'', PInt 1)],
                          filename = Some ''/dst/workspace/1/signac_job_document.json''\<rparr>\<rparr>]\<rparr>,
       Map.empty), [], Inr {})
   \<and> ''1'' \<in> set (map job_id (jobs (fst (snd (state
       (merge_projects literal_match 9 (\<lambda>d. ''doc'') (\<lambda>p. {})
     \<lparr>root_directory = ''/src'', workspace_dir = ''/src/workspace'',
       document = \<lparr>data = PDict [], filename = None\<rparr>,
       jobs = [\<lparr>job_type = ''Job'', job_id = ''1'', FN_MANIFEST = ''signac_statepoint.json'',
                FN_DOCUMENT = ''signac_job_document.json'', workspace = ''/src/workspace/1'',
                tree = [(''data.txt'', File ''x'' 1)],
                doc = \<lparr>data = PDict [(''a'', PInt 1)], filename = None\<rparr>\<rparr>]\<rparr>
     \<lparr>root_directory = ''/dst'', workspace_dir = ''/dst/workspace'',
       document = \<lparr>data = PDict [], filename = None\<rparr>, jobs = []\<rparr>
     ExcludeNone None None None True True Map.empty))))))"
proof -
  let ?j = "\<lparr>job_type = ''Job'', job_id = ''1'', FN_MANIFEST = ''signac_statepoint.json'',
                FN_DOCUMENT = ''signac_job_document.json'', workspace = ''/src/workspace/1'',
                tree = [(''data.txt'', File ''x'' 1)],
                doc = \<lparr>data = PDict [(''a'', PInt 1)], filename = None\<rparr>\<rparr>"
  let ?source = "\<lparr>root_directory = ''/src'', workspace_dir = ''/src/workspace'',
       document = \<lparr>data = PDict [], filename = None\<rparr>, jobs = [?j]\<rparr>"
  let ?destination = "\<lparr>root_directory = ''/dst'', workspace_dir = ''/dst/workspace'',
       document = \<lparr>data = PDict [], filename = None\<rparr>, jobs = []\<rparr>"
  let ?run = "merge_projects literal_match 9 (\<lambda>d. ''doc'') (\<lambda>p. {}) ?source ?destination
     ExcludeNone None None None True True Map.empty"
  have run: "?run
   = ((ExcludeNone,
       \<lparr>root_directory = ''/dst'', workspace_dir = ''/dst/workspace'',
         document = \<lparr>data = PDict [], filename = None\<rparr>,
         jobs = [\<lparr>job_type = ''Job'', job_id = ''1'', FN_MANIFEST = ''signac_statepoint.json'',
                  FN_DOCUMENT = ''signac_job_document.json'', workspace = ''/dst/workspace/1'',
                  tree = [(''data.txt'', File ''x'' 1)],
                  doc = \<lparr>data = PDict [(''a'', PInt 1)],
                          filename = Some ''/dst/workspace/1/signac_job_document.json''\<rparr>\<rparr>]\<rparr>,
       Map.empty), [], Inr {})"
    by (simp add: merge_projects_def merge_json_dicts_def persist_def clone_def join_def
        logged_def Let_def)
  have h1: "outcome ?run = Inr {}"
    unfolding run by simp
  have h2: "?j \<in> set (jobs ?source)" and h3: "None = None \<or> job_id ?j \<in> set (the None)"
    and h4: "job_id ?j \<notin> set (map job_id (jobs ?destination))"
    by simp_all
  from dry_run_clones_jobs[OF h1 h2 h3 h4, THEN conjunct1]
  have mem: "''1'' \<in> set (map job_id (jobs (fst (snd (state ?run)))))"
    by (simp only: job.simps)
  show ?thesis
    by (rule conjI[OF run mem])
qed

end
